theory Spec2Isabelle
  imports Complex_Main "HOL-Library.Sublist"
begin

section \<open>The storage capability: Firestore documents, writes and batches\<close>

text \<open>
  The services of \<^verbatim>\<open>src/lib/firebase/services.ts\<close> read and write schemaless Firestore
  documents. The code writes fields that its TypeScript interfaces do not declare
  (\<^verbatim>\<open>cancelledAt\<close>, \<^verbatim>\<open>lastActivityAt\<close>, \<^verbatim>\<open>referenceId\<close>), spreads caller objects of type
  \<^verbatim>\<open>Partial<...>\<close> and \<^verbatim>\<open>any\<close> into its writes, so a document is modelled as what Firestore
  stores: a finite map from field names to values.

  Modelling decisions, stated once:
  \<^item> A JavaScript number is a double. A finite double is modelled by the rational it
    denotes, and what the client computes with doubles, the products and sums of
    \<^verbatim>\<open>handleSubmit\<close> and the product \<^verbatim>\<open>actualWeightKg * 1.5\<close>, is computed as doubles
    compute it, by \<open>addDouble\<close> and \<open>mulDouble\<close> below; a decimal that enters such a
    computation is the double it denotes, \<open>toDouble\<close> of it. The sum that Firestore
    computes for \<^verbatim>\<open>increment\<close>, in 64-bit integers or in doubles according to the stored
    types, is taken exactly. Of the doubles that are not finite, \<open>NaN\<close> is a value of the
    model, because \<^verbatim>\<open>increment\<close> stores it for an operand that is not a number; the
    infinities, that is results beyond the largest double, are outside the model.
  \<^item> Document ids are opaque keys. The ids Firestore generates for \<^verbatim>\<open>addDoc\<close> and
    \<^verbatim>\<open>doc(collection)\<close> are read from the environment (\<open>autoId env i\<close> is the i-th id
    generated during the call); whether such an id is new is a hypothesis where a claim
    needs it.
  \<^item> \<^verbatim>\<open>serverTimestamp()\<close> and \<^verbatim>\<open>increment(n)\<close> are sentinels that Firestore resolves when
    the write is applied; \<^verbatim>\<open>new Date().toISOString()\<close> and the conversion of a number
    inside a template literal are read from the environment.
  \<^item> An \<^verbatim>\<open>update\<close> of a document that does not exist is rejected by Firestore, and a
    batch is applied completely or not at all.
  \<^item> A field name is taken whole. A dot in a field name of an \<^verbatim>\<open>update\<close>, which
    Firestore reads as a path into a nested object, occurs in none of the code's own
    writes and is outside the model, and so is a field whose value is \<^verbatim>\<open>undefined\<close>.
  \<^item> Failures of the network or the backend are not modelled.
\<close>

datatype fsValue =
    Null
  | Str string
  | Num rat
  | NaN
  | Bool bool
  | Timestamp nat
  | Arr "fsValue list"
  | Obj "(string \<times> fsValue) list"

text \<open>
  A field of a write: a value, or one of the sentinels \<^verbatim>\<open>serverTimestamp()\<close> and
  \<^verbatim>\<open>increment(n)\<close>. \<^verbatim>\<open>increment\<close> checks nothing: given an operand that is not a number,
  such as the \<^verbatim>\<open>undefined\<close> of a field that a document lacks, the SDK converts it to the
  double \<open>NaN\<close> and the write is accepted; that sentinel is \<open>IncrementNaN\<close>.
\<close>

datatype fieldValue = Val fsValue | ServerTimestamp | Increment rat | IncrementNaN

type_synonym document = "string \<rightharpoonup> fsValue"

type_synonym writeData = "string \<rightharpoonup> fieldValue"

datatype collection =
  Profiles | Pickups | PickupItems | CreditTransactions | Notifications
  | Achievements | EwasteCategories

type_synonym firestore = "collection \<Rightarrow> string \<rightharpoonup> document"

datatype error =
    PickupNotFound
  | NotFound collection string
  | IllTyped string

record env =
  serverTime :: nat
  clientTime :: string
  autoId :: "nat \<Rightarrow> string"
  numberToString :: "rat \<Rightarrow> string"

text \<open>A plain JavaScript object handed to a write: every field is an ordinary value.\<close>

definition plain :: "document \<Rightarrow> writeData" where
  "plain d = (\<lambda>k. map_option Val (d k))"

text \<open>
  What one written field becomes, given the server time and the value stored before.
  \<^verbatim>\<open>increment(n)\<close> adds to a stored number, where a sum with \<open>NaN\<close> is \<open>NaN\<close>, and on a
  field that is missing or not a number it stores the operand.
\<close>

fun resolve :: "nat \<Rightarrow> fsValue option \<Rightarrow> fieldValue \<Rightarrow> fsValue" where
  "resolve t old (Val v) = v"
| "resolve t old ServerTimestamp = Timestamp t"
| "resolve t (Some (Num x)) (Increment n) = Num (x + n)"
| "resolve t (Some NaN) (Increment n) = NaN"
| "resolve t old (Increment n) = Num n"
| "resolve t old IncrementNaN = NaN"

definition setData :: "nat \<Rightarrow> writeData \<Rightarrow> document" where
  "setData t d = (\<lambda>k. map_option (resolve t None) (d k))"

definition updateData :: "nat \<Rightarrow> document \<Rightarrow> writeData \<Rightarrow> document" where
  "updateData t old d =
     (\<lambda>k. case d k of None \<Rightarrow> old k | Some fv \<Rightarrow> Some (resolve t (old k) fv))"

datatype batchWrite =
    BatchSet collection string writeData
  | BatchUpdate collection string writeData

fun applyWrite :: "nat \<Rightarrow> batchWrite \<Rightarrow> firestore \<Rightarrow> error + firestore" where
  "applyWrite t (BatchSet c i d) db = Inr (db(c := (db c)(i \<mapsto> setData t d)))"
| "applyWrite t (BatchUpdate c i d) db =
     (case db c i of
        None \<Rightarrow> Inl (NotFound c i)
      | Some old \<Rightarrow> Inr (db(c := (db c)(i \<mapsto> updateData t old d))))"

fun applyWrites :: "nat \<Rightarrow> batchWrite list \<Rightarrow> firestore \<Rightarrow> error + firestore" where
  "applyWrites t [] db = Inr db"
| "applyWrites t (w # ws) db =
     (case applyWrite t w db of Inl e \<Rightarrow> Inl e | Inr db' \<Rightarrow> applyWrites t ws db')"

text \<open>
  \<^verbatim>\<open>batch.commit()\<close>: the writes in order, all of them or none. Every operation returns
  its outcome together with the store it leaves behind.
\<close>

definition commit :: "nat \<Rightarrow> batchWrite list \<Rightarrow> firestore \<Rightarrow> (error + unit) \<times> firestore" where
  "commit t ws db =
     (case applyWrites t ws db of Inl e \<Rightarrow> (Inl e, db) | Inr db' \<Rightarrow> (Inr (), db'))"

definition setDoc ::
  "collection \<Rightarrow> string \<Rightarrow> writeData \<Rightarrow> env \<Rightarrow> firestore \<Rightarrow> (error + unit) \<times> firestore" where
  "setDoc c i d e db = commit (serverTime e) [BatchSet c i d] db"

definition updateDoc ::
  "collection \<Rightarrow> string \<Rightarrow> writeData \<Rightarrow> env \<Rightarrow> firestore \<Rightarrow> (error + unit) \<times> firestore" where
  "updateDoc c i d e db = commit (serverTime e) [BatchUpdate c i d] db"

definition addDoc ::
  "collection \<Rightarrow> writeData \<Rightarrow> env \<Rightarrow> firestore \<Rightarrow> (error + string) \<times> firestore" where
  "addDoc c d e db = (Inr (autoId e 0), snd (setDoc c (autoId e 0) d e db))"

definition getDoc :: "collection \<Rightarrow> string \<Rightarrow> firestore \<Rightarrow> document option" where
  "getDoc c i db = db c i"

section \<open>The arithmetic of doubles\<close>

text \<open>
  A finite double is a rational \<^verbatim>\<open>m * 2^k\<close> with an integer \<^verbatim>\<open>m\<close> of at most 53 bits
  and \<^verbatim>\<open>k >= -1074\<close>. The sum and the product of two doubles are the exact result,
  rounded to the nearest double, and of two nearest doubles to the one with the even
  \<^verbatim>\<open>m\<close> (IEEE 754, round to nearest, ties to even). \<open>toDouble\<close> is that rounding: for
  \<^verbatim>\<open>2^e <= |x| < 2^(e+1)\<close> the doubles around \<open>x\<close> are the multiples of
  \<^verbatim>\<open>2^(e-52)\<close>, and below \<^verbatim>\<open>2^-1022\<close> they are the multiples of \<^verbatim>\<open>2^-1074\<close>. It is
  also the double that a decimal literal of the source denotes. \<^verbatim>\<open>Math.round(x)\<close> is
  the integer \<open>\<lfloor>x + 1/2\<rfloor>\<close>, computed exactly, which is what \<open>round\<close> denotes.
\<close>

function bitLength :: "int \<Rightarrow> int" where
  "bitLength n = (if n \<le> 0 then 0 else 1 + bitLength (n div 2))"
  by auto
termination
  by (relation "measure nat") auto

declare bitLength.simps [simp del]

definition pow2 :: "int \<Rightarrow> rat" where
  "pow2 k = (if 0 \<le> k then 2 ^ nat k else 1 / 2 ^ nat (- k))"

text \<open>The exponent \<open>e\<close> of a rational that is not zero: \<^verbatim>\<open>2^e <= |x| < 2^(e+1)\<close>.\<close>

definition exponentOf :: "rat \<Rightarrow> int" where
  "exponentOf x =
     (let (p, q) = quotient_of \<bar>x\<bar>;
          k = bitLength p - bitLength q
      in if pow2 k \<le> \<bar>x\<bar> then k else k - 1)"

definition roundTiesToEven :: "rat \<Rightarrow> int" where
  "roundTiesToEven x =
     (let n = \<lfloor>x\<rfloor>; r = x - of_int n
      in if r < 1 / 2 then n else if 1 / 2 < r then n + 1 else if even n then n else n + 1)"

definition toDouble :: "rat \<Rightarrow> rat" where
  "toDouble x =
     (if x = 0 then 0
      else let u = pow2 (max (exponentOf x) (- 1022) - 52)
           in of_int (roundTiesToEven (x / u)) * u)"

definition addDouble :: "rat \<Rightarrow> rat \<Rightarrow> rat" where
  "addDouble x y = toDouble (x + y)"

definition mulDouble :: "rat \<Rightarrow> rat \<Rightarrow> rat" where
  "mulDouble x y = toDouble (x * y)"

section \<open>The services\<close>

subsection \<open>Profiles\<close>

text \<open>
  \<^verbatim>\<open>createProfile\<close> spreads the caller's data over the defaults, so the caller's fields
  win. It reads the clock twice, for \<^verbatim>\<open>createdAt\<close> and \<^verbatim>\<open>updatedAt\<close>; the two readings
  are taken as equal.
\<close>

definition createProfile ::
  "string \<Rightarrow> document \<Rightarrow> env \<Rightarrow> firestore \<Rightarrow> (error + document) \<times> firestore" where
  "createProfile userId data e db =
     (let profileData =
            [''id'' \<mapsto> Str userId,
             ''role'' \<mapsto> Str ''donor'',
             ''greenCredits'' \<mapsto> Num 0,
             ''totalItemsRecycled'' \<mapsto> Num 0,
             ''totalWeightKg'' \<mapsto> Num 0,
             ''co2SavedKg'' \<mapsto> Num 0,
             ''streakDays'' \<mapsto> Num 0,
             ''badgeLevel'' \<mapsto> Str ''seedling'',
             ''isVerified'' \<mapsto> Bool False,
             ''createdAt'' \<mapsto> Str (clientTime e),
             ''updatedAt'' \<mapsto> Str (clientTime e)] ++ data
      in (Inr profileData, snd (setDoc Profiles userId (plain profileData) e db)))"

definition getProfile :: "string \<Rightarrow> firestore \<Rightarrow> document option" where
  "getProfile userId db = getDoc Profiles userId db"

definition updateProfile ::
  "string \<Rightarrow> document \<Rightarrow> env \<Rightarrow> firestore \<Rightarrow> (error + unit) \<times> firestore" where
  "updateProfile userId data e db =
     updateDoc Profiles userId (plain (data(''updatedAt'' \<mapsto> Str (clientTime e)))) e db"

subsection \<open>Pickups\<close>

definition createPickup ::
  "document \<Rightarrow> env \<Rightarrow> firestore \<Rightarrow> (error + string) \<times> firestore" where
  "createPickup data e db =
     addDoc Pickups
       ((plain data)(''createdAt'' \<mapsto> ServerTimestamp, ''updatedAt'' \<mapsto> ServerTimestamp)) e db"

definition getPickup :: "string \<Rightarrow> firestore \<Rightarrow> document option" where
  "getPickup pickupId db =
     (case getDoc Pickups pickupId db of
        None \<Rightarrow> None
      | Some d \<Rightarrow> Some ([''id'' \<mapsto> Str pickupId] ++ d))"

text \<open>
  \<^verbatim>\<open>status\<close> is any string and \<^verbatim>\<open>additionalData\<close> is optional and of type \<^verbatim>\<open>any\<close>;
  it is spread last, so its fields win.
\<close>

definition updatePickupStatus ::
  "string \<Rightarrow> string \<Rightarrow> writeData option \<Rightarrow> env \<Rightarrow> firestore
     \<Rightarrow> (error + unit) \<times> firestore" where
  "updatePickupStatus pickupId status additionalData e db =
     (let updateData0 = [''status'' \<mapsto> Val (Str status), ''updatedAt'' \<mapsto> ServerTimestamp];
          updateData1 = (if status = ''matched''
                         then updateData0(''matchedAt'' \<mapsto> ServerTimestamp) else updateData0);
          updateData2 = (if status = ''collected''
                         then updateData1(''collectedAt'' \<mapsto> ServerTimestamp) else updateData1);
          updateData3 = (if status = ''completed''
                         then updateData2(''completedAt'' \<mapsto> ServerTimestamp) else updateData2);
          updateData4 = (if status = ''cancelled''
                         then updateData3(''cancelledAt'' \<mapsto> ServerTimestamp) else updateData3)
      in updateDoc Pickups pickupId
           (updateData4 ++ (case additionalData of None \<Rightarrow> Map.empty | Some a \<Rightarrow> a)) e db)"

definition acceptPickup ::
  "string \<Rightarrow> string \<Rightarrow> env \<Rightarrow> firestore \<Rightarrow> (error + unit) \<times> firestore" where
  "acceptPickup pickupId collectorId e db =
     updateDoc Pickups pickupId
       [''collectorId'' \<mapsto> Val (Str collectorId),
        ''status'' \<mapsto> Val (Str ''matched''),
        ''matchedAt'' \<mapsto> ServerTimestamp,
        ''updatedAt'' \<mapsto> ServerTimestamp] e db"

subsection \<open>Pickup items\<close>

definition addPickupItems ::
  "string \<Rightarrow> document list \<Rightarrow> env \<Rightarrow> firestore \<Rightarrow> (error + unit) \<times> firestore" where
  "addPickupItems pickupId items e db =
     commit (serverTime e)
       (map (\<lambda>(i, item).
               BatchSet PickupItems (autoId e i)
                 ((plain item)(''pickupId'' \<mapsto> Val (Str pickupId),
                               ''createdAt'' \<mapsto> ServerTimestamp)))
            (enumerate 0 items))
       db"

subsection \<open>Credit transactions and notifications\<close>

definition addCreditTransaction ::
  "document \<Rightarrow> env \<Rightarrow> firestore \<Rightarrow> (error + string) \<times> firestore" where
  "addCreditTransaction data e db =
     addDoc CreditTransactions ((plain data)(''createdAt'' \<mapsto> ServerTimestamp)) e db"

definition createNotification ::
  "document \<Rightarrow> env \<Rightarrow> firestore \<Rightarrow> (error + string) \<times> firestore" where
  "createNotification data e db =
     addDoc Notifications
       ((plain data)(''isRead'' \<mapsto> Val (Bool False), ''createdAt'' \<mapsto> ServerTimestamp)) e db"

definition markNotificationAsRead ::
  "string \<Rightarrow> env \<Rightarrow> firestore \<Rightarrow> (error + unit) \<times> firestore" where
  "markNotificationAsRead notificationId e db =
     updateDoc Notifications notificationId [''isRead'' \<mapsto> Val (Bool True)] e db"

subsection \<open>Seed data\<close>

definition achievementsSeed :: "document list" where
  "achievementsSeed =
     [[''slug'' \<mapsto> Str ''first_drop'', ''name'' \<mapsto> Str ''First Drop'',
       ''description'' \<mapsto> Str ''Complete your first pickup'', ''iconName'' \<mapsto> Str ''Leaf'',
       ''requirementType'' \<mapsto> Str ''pickups'', ''requirementValue'' \<mapsto> Num 1,
       ''creditReward'' \<mapsto> Num 50],
      [''slug'' \<mapsto> Str ''eco_starter'', ''name'' \<mapsto> Str ''Eco Starter'',
       ''description'' \<mapsto> Str ''Recycle 5 items'', ''iconName'' \<mapsto> Str ''Sprout'',
       ''requirementType'' \<mapsto> Str ''items_recycled'', ''requirementValue'' \<mapsto> Num 5,
       ''creditReward'' \<mapsto> Num 100],
      [''slug'' \<mapsto> Str ''green_warrior'', ''name'' \<mapsto> Str ''Green Warrior'',
       ''description'' \<mapsto> Str ''Recycle 25 items'', ''iconName'' \<mapsto> Str ''TreePine'',
       ''requirementType'' \<mapsto> Str ''items_recycled'', ''requirementValue'' \<mapsto> Num 25,
       ''creditReward'' \<mapsto> Num 250],
      [''slug'' \<mapsto> Str ''weight_lifter'', ''name'' \<mapsto> Str ''Weight Lifter'',
       ''description'' \<mapsto> Str ''Recycle 10kg of e-waste'', ''iconName'' \<mapsto> Str ''Dumbbell'',
       ''requirementType'' \<mapsto> Str ''weight_kg'', ''requirementValue'' \<mapsto> Num 10,
       ''creditReward'' \<mapsto> Num 200],
      [''slug'' \<mapsto> Str ''streak_3'', ''name'' \<mapsto> Str ''On a Roll'',
       ''description'' \<mapsto> Str ''3-day activity streak'', ''iconName'' \<mapsto> Str ''Flame'',
       ''requirementType'' \<mapsto> Str ''streak'', ''requirementValue'' \<mapsto> Num 3,
       ''creditReward'' \<mapsto> Num 75],
      [''slug'' \<mapsto> Str ''streak_7'', ''name'' \<mapsto> Str ''Week Warrior'',
       ''description'' \<mapsto> Str ''7-day activity streak'', ''iconName'' \<mapsto> Str ''Zap'',
       ''requirementType'' \<mapsto> Str ''streak'', ''requirementValue'' \<mapsto> Num 7,
       ''creditReward'' \<mapsto> Num 150],
      [''slug'' \<mapsto> Str ''century'', ''name'' \<mapsto> Str ''Century Club'',
       ''description'' \<mapsto> Str ''Recycle 100 items'', ''iconName'' \<mapsto> Str ''Trophy'',
       ''requirementType'' \<mapsto> Str ''items_recycled'', ''requirementValue'' \<mapsto> Num 100,
       ''creditReward'' \<mapsto> Num 500],
      [''slug'' \<mapsto> Str ''half_ton'', ''name'' \<mapsto> Str ''Half Ton Hero'',
       ''description'' \<mapsto> Str ''Recycle 500kg of e-waste'', ''iconName'' \<mapsto> Str ''Medal'',
       ''requirementType'' \<mapsto> Str ''weight_kg'', ''requirementValue'' \<mapsto> Num 500,
       ''creditReward'' \<mapsto> Num 1000]]"

definition seedAchievements :: "env \<Rightarrow> firestore \<Rightarrow> (error + unit) \<times> firestore" where
  "seedAchievements e db =
     commit (serverTime e)
       (map (\<lambda>(i, achievement). BatchSet Achievements (autoId e i) (plain achievement))
            (enumerate 0 achievementsSeed))
       db"

text \<open>
  The categories, each given by the literals of its object in the source; a number of
  it is the double that the literal denotes.
\<close>

definition categoryDoc ::
  "string \<Rightarrow> string \<Rightarrow> string \<Rightarrow> string \<Rightarrow> rat \<Rightarrow> rat \<Rightarrow> rat \<Rightarrow> string \<Rightarrow> rat
     \<Rightarrow> string \<times> document" where
  "categoryDoc name slug description iconName avgWeightKg greenCreditsPerKg co2SavedPerKg
            hazardLevel estimatedValuePerKg =
     (slug,
      [''name'' \<mapsto> Str name, ''slug'' \<mapsto> Str slug, ''description'' \<mapsto> Str description,
       ''iconName'' \<mapsto> Str iconName, ''avgWeightKg'' \<mapsto> Num (toDouble avgWeightKg),
       ''greenCreditsPerKg'' \<mapsto> Num (toDouble greenCreditsPerKg),
       ''co2SavedPerKg'' \<mapsto> Num (toDouble co2SavedPerKg),
       ''hazardLevel'' \<mapsto> Str hazardLevel,
       ''estimatedValuePerKg'' \<mapsto> Num (toDouble estimatedValuePerKg)])"

definition categoriesSeed :: "(string \<times> document) list" where
  "categoriesSeed =
     [categoryDoc ''Smartphones & Tablets'' ''smartphones'' ''Mobile phones, tablets, e-readers''
        ''Smartphone'' 0.2 25 2.5 ''medium'' 15,
      categoryDoc ''Laptops & Computers'' ''laptops'' ''Laptops, desktops, monitors''
        ''Laptop'' 3.0 30 3.0 ''medium'' 12,
      categoryDoc ''Batteries'' ''batteries'' ''Li-ion, NiMH, Lead-acid batteries''
        ''Battery'' 0.5 40 4.0 ''critical'' 8,
      categoryDoc ''Cables & Chargers'' ''cables'' ''USB cables, power adapters, chargers''
        ''Cable'' 0.3 10 1.0 ''low'' 5,
      categoryDoc ''TVs & Displays'' ''displays'' ''LED/LCD TVs, monitors, projectors''
        ''Monitor'' 8.0 20 2.0 ''high'' 6,
      categoryDoc ''Printers & Scanners'' ''printers'' ''Inkjet, laser printers, scanners''
        ''Printer'' 5.0 15 1.5 ''medium'' 4,
      categoryDoc ''Kitchen Appliances'' ''kitchen'' ''Microwaves, toasters, blenders''
        ''UtensilsCrossed'' 4.0 12 1.2 ''low'' 3,
      categoryDoc ''Audio & Wearables'' ''audio'' ''Headphones, speakers, smartwatches''
        ''Headphones'' 0.3 20 2.0 ''low'' 10,
      categoryDoc ''Gaming Consoles'' ''gaming'' ''Consoles, controllers, VR headsets''
        ''Gamepad2'' 2.5 25 2.5 ''low'' 8,
      categoryDoc ''Networking Equipment'' ''networking'' ''Routers, modems, switches''
        ''Wifi'' 1.0 15 1.5 ''low'' 6]"

definition seedEwasteCategories :: "env \<Rightarrow> firestore \<Rightarrow> (error + unit) \<times> firestore" where
  "seedEwasteCategories e db =
     commit (serverTime e)
       (map (\<lambda>(slug, category). BatchSet EwasteCategories slug (plain category)) categoriesSeed)
       db"

subsection \<open>Completing a pickup and awarding credits\<close>

text \<open>
  The two string literals of the source that are not ASCII, as the bytes of the file:
  the dash of the transaction's description and the symbol that opens the
  notification's title.
\<close>

definition descriptionDash :: string where
  "descriptionDash =
     [CHR 0xC3, CHR 0xA2, CHR 0xE2, CHR 0x82, CHR 0xAC, CHR 0xE2, CHR 0x80, CHR 0x9D]"

definition titleSymbol :: string where
  "titleSymbol =
     [CHR 0xC3, CHR 0xB0, CHR 0xC5, CHR 0xB8, CHR 0xC5, CHR 0x92, CHR 0xC2, CHR 0xBF]"

text \<open>
  The code casts the document it has read to \<^verbatim>\<open>PickupRequest\<close> and checks none of its
  fields. Two of them are used. \<^verbatim>\<open>donorId\<close> names the profile to update:
  \<^verbatim>\<open>doc(collection, id)\<close> throws when the id is not a string, which is the failure
  \<open>IllTyped\<close>, before anything is written. \<^verbatim>\<open>totalItems\<close> is handed to \<^verbatim>\<open>increment\<close> as
  it is: a number is the operand, and what is not a number, the \<^verbatim>\<open>undefined\<close> of a missing
  field in the first place, makes the operand \<open>NaN\<close>; the batch is committed either way.
\<close>

fun asStr :: "fsValue option \<Rightarrow> string option" where
  "asStr (Some (Str s)) = Some s"
| "asStr _ = None"

fun increment :: "fsValue option \<Rightarrow> fieldValue" where
  "increment (Some (Num n)) = Increment n"
| "increment _ = IncrementNaN"

definition completePickupAndAwardCredits ::
  "string \<Rightarrow> rat \<Rightarrow> rat \<Rightarrow> env \<Rightarrow> firestore \<Rightarrow> (error + unit) \<times> firestore" where
  "completePickupAndAwardCredits pickupId actualWeightKg actualCredits e db =
     (case getDoc Pickups pickupId db of
        None \<Rightarrow> (Inl PickupNotFound, db)
      | Some pickup \<Rightarrow>
          (case asStr (pickup ''donorId'') of
             None \<Rightarrow> (Inl (IllTyped ''donorId''), db)
           | Some donorId \<Rightarrow>
               commit (serverTime e)
                 [BatchUpdate Pickups pickupId
                    [''status'' \<mapsto> Val (Str ''completed''),
                     ''actualWeightKg'' \<mapsto> Val (Num actualWeightKg),
                     ''actualCreditsAwarded'' \<mapsto> Val (Num actualCredits),
                     ''completedAt'' \<mapsto> ServerTimestamp,
                     ''updatedAt'' \<mapsto> ServerTimestamp],
                  BatchUpdate Profiles donorId
                    [''greenCredits'' \<mapsto> Increment actualCredits,
                     ''totalItemsRecycled'' \<mapsto> increment (pickup ''totalItems''),
                     ''totalWeightKg'' \<mapsto> Increment actualWeightKg,
                     ''co2SavedKg'' \<mapsto> Increment (mulDouble actualWeightKg 1.5),
                     ''lastActivityAt'' \<mapsto> Val (Str (clientTime e)),
                     ''updatedAt'' \<mapsto> ServerTimestamp],
                  BatchSet CreditTransactions (autoId e 0)
                    [''userId'' \<mapsto> Val (Str donorId),
                     ''amount'' \<mapsto> Val (Num actualCredits),
                     ''type'' \<mapsto> Val (Str ''pickup_completed''),
                     ''description'' \<mapsto>
                        Val (Str (''Pickup #'' @ take 8 pickupId @ '' completed ''
                                  @ descriptionDash @ '' ''
                                  @ numberToString e actualWeightKg @ ''kg recycled'')),
                     ''referenceId'' \<mapsto> Val (Str pickupId),
                     ''createdAt'' \<mapsto> ServerTimestamp],
                  BatchSet Notifications (autoId e 1)
                    [''userId'' \<mapsto> Val (Str donorId),
                     ''title'' \<mapsto> Val (Str (titleSymbol @ '' Credits Earned!'')),
                     ''body'' \<mapsto>
                        Val (Str (''You earned '' @ numberToString e actualCredits
                                  @ '' Green Credits for recycling ''
                                  @ numberToString e actualWeightKg
                                  @ ''kg of e-waste!'')),
                     ''type'' \<mapsto> Val (Str ''credit_earned''),
                     ''data'' \<mapsto>
                        Val (Obj [(''amount'', Num actualCredits),
                                  (''pickupId'', Str pickupId)]),
                     ''createdAt'' \<mapsto> ServerTimestamp]]
                 db))"

subsection \<open>The calls a client can make\<close>

text \<open>
  Every exported function of the services that writes, as one call; \<open>exec\<close> is the
  store that a call leaves behind.
\<close>

datatype call =
    CreateProfile string document
  | UpdateProfile string document
  | CreatePickup document
  | UpdatePickupStatus string string "writeData option"
  | AcceptPickup string string
  | AddPickupItems string "document list"
  | AddCreditTransaction document
  | CreateNotification document
  | MarkNotificationAsRead string
  | SeedAchievements
  | SeedEwasteCategories
  | CompletePickupAndAwardCredits string rat rat

fun exec :: "call \<Rightarrow> env \<Rightarrow> firestore \<Rightarrow> firestore" where
  "exec (CreateProfile userId data) e db = snd (createProfile userId data e db)"
| "exec (UpdateProfile userId data) e db = snd (updateProfile userId data e db)"
| "exec (CreatePickup data) e db = snd (createPickup data e db)"
| "exec (UpdatePickupStatus pickupId status additionalData) e db =
     snd (updatePickupStatus pickupId status additionalData e db)"
| "exec (AcceptPickup pickupId collectorId) e db = snd (acceptPickup pickupId collectorId e db)"
| "exec (AddPickupItems pickupId items) e db = snd (addPickupItems pickupId items e db)"
| "exec (AddCreditTransaction data) e db = snd (addCreditTransaction data e db)"
| "exec (CreateNotification data) e db = snd (createNotification data e db)"
| "exec (MarkNotificationAsRead notificationId) e db =
     snd (markNotificationAsRead notificationId e db)"
| "exec SeedAchievements e db = snd (seedAchievements e db)"
| "exec SeedEwasteCategories e db = snd (seedEwasteCategories e db)"
| "exec (CompletePickupAndAwardCredits pickupId actualWeightKg actualCredits) e db =
     snd (completePickupAndAwardCredits pickupId actualWeightKg actualCredits e db)"

section \<open>The scanner: from predictions to an e-waste decision\<close>

text \<open>
  \<^verbatim>\<open>src/hooks/use-ewaste-scanner.ts\<close>. The classifier is an external capability:
  \<open>scanImage\<close> below is the body of the hook's \<^verbatim>\<open>scanImage\<close> from the line that receives
  the predictions. Labels are taken as ASCII, which is what the classifier produces. A
  probability is compared with the threshold \<^verbatim>\<open>0.1\<close>, that is with the double that this
  literal denotes, and copied into the result; nothing is computed with it.
\<close>

definition EWASTE_LABEL_MAP :: "(string \<times> string \<times> string) list" where
  "EWASTE_LABEL_MAP =
     [(''cellular_telephone'', ''Smartphones & Tablets'', ''smartphones''),
      (''cell_phone'', ''Smartphones & Tablets'', ''smartphones''),
      (''smartphone'', ''Smartphones & Tablets'', ''smartphones''),
      (''iPod'', ''Smartphones & Tablets'', ''smartphones''),
      (''tablet'', ''Smartphones & Tablets'', ''smartphones''),
      (''laptop'', ''Laptops & Computers'', ''laptops''),
      (''notebook'', ''Laptops & Computers'', ''laptops''),
      (''desktop_computer'', ''Laptops & Computers'', ''laptops''),
      (''monitor'', ''Laptops & Computers'', ''laptops''),
      (''screen'', ''Laptops & Computers'', ''laptops''),
      (''keyboard'', ''Laptops & Computers'', ''laptops''),
      (''mouse'', ''Laptops & Computers'', ''laptops''),
      (''computer_keyboard'', ''Laptops & Computers'', ''laptops''),
      (''television'', ''TVs & Displays'', ''displays''),
      (''TV'', ''TVs & Displays'', ''displays''),
      (''digital_clock'', ''TVs & Displays'', ''displays''),
      (''headphone'', ''Audio & Wearables'', ''audio''),
      (''earphone'', ''Audio & Wearables'', ''audio''),
      (''speaker'', ''Audio & Wearables'', ''audio''),
      (''loudspeaker'', ''Audio & Wearables'', ''audio''),
      (''digital_watch'', ''Audio & Wearables'', ''audio''),
      (''joystick'', ''Gaming Consoles'', ''gaming''),
      (''remote_control'', ''Gaming Consoles'', ''gaming''),
      (''printer'', ''Printers & Scanners'', ''printers''),
      (''modem'', ''Networking Equipment'', ''networking''),
      (''router'', ''Networking Equipment'', ''networking''),
      (''microwave'', ''Kitchen Appliances'', ''kitchen''),
      (''toaster'', ''Kitchen Appliances'', ''kitchen''),
      (''coffee_maker'', ''Kitchen Appliances'', ''kitchen''),
      (''electric_fan'', ''Kitchen Appliances'', ''kitchen''),
      (''iron'', ''Kitchen Appliances'', ''kitchen''),
      (''vacuum'', ''Kitchen Appliances'', ''kitchen''),
      (''washer'', ''Kitchen Appliances'', ''kitchen''),
      (''refrigerator'', ''Kitchen Appliances'', ''kitchen''),
      (''power_cord'', ''Cables & Chargers'', ''cables''),
      (''plug'', ''Cables & Chargers'', ''cables''),
      (''adapter'', ''Cables & Chargers'', ''cables''),
      (''battery'', ''Batteries'', ''batteries'')]"

record prediction =
  className :: string
  probability :: rat

record ScanResult =
  label :: string
  confidence :: rat
  isEwaste :: bool
  category :: "string option"
  categorySlug :: "string option"
  allPredictions :: "prediction list"

subsection \<open>The string operations the loop uses\<close>

definition toLowerChar :: "char \<Rightarrow> char" where
  "toLowerChar c =
     (case map_of (zip ''ABCDEFGHIJKLMNOPQRSTUVWXYZ'' ''abcdefghijklmnopqrstuvwxyz'') c of
        Some l \<Rightarrow> l
      | None \<Rightarrow> c)"

definition toLowerCase :: "string \<Rightarrow> string" where
  "toLowerCase s = map toLowerChar s"

text \<open>\<^verbatim>\<open>replace(/[,_]/g, ' ')\<close>\<close>

definition replaceCommaUnderscore :: "string \<Rightarrow> string" where
  "replaceCommaUnderscore s =
     map (\<lambda>c. if c = CHR '','' \<or> c = CHR ''_'' then CHR '' '' else c) s"

text \<open>
  \<^verbatim>\<open>split(' ')\<close> cuts at every single space and keeps the empty pieces: the empty
  string gives one empty piece, and two spaces in a row give an empty piece between them.
\<close>

fun split_str :: "char \<Rightarrow> string \<Rightarrow> string list" where
  "split_str sep [] = [[]]"
| "split_str sep (c # cs) =
     (if c = sep then [] # split_str sep cs
      else (case split_str sep cs of
              [] \<Rightarrow> [[c]]
            | w # ws \<Rightarrow> (c # w) # ws))"

text \<open>\<^verbatim>\<open>s.includes(t)\<close>: \<open>t\<close> occurs in \<open>s\<close> as a contiguous piece.\<close>

fun includes_str :: "string \<Rightarrow> string \<Rightarrow> bool" where
  "includes_str [] t = (t = [])"
| "includes_str (c # cs) t = (prefix t (c # cs) \<or> includes_str cs t)"

definition words_of :: "string \<Rightarrow> string list" where
  "words_of name = split_str CHR '' '' (replaceCommaUnderscore (toLowerCase name))"

subsection \<open>The three nested loops\<close>

fun scanKeys ::
  "prediction list \<Rightarrow> prediction \<Rightarrow> string \<Rightarrow> (string \<times> string \<times> string) list
     \<Rightarrow> ScanResult option" where
  "scanKeys predictions pred word [] = None"
| "scanKeys predictions pred word ((key, cat, slug) # entries) =
     (if includes_str word (toLowerCase key) \<or> includes_str (toLowerCase key) word
      then (if probability pred > toDouble 0.1
            then Some \<lparr>label = className pred,
                       confidence = probability pred,
                       isEwaste = True,
                       category = Some cat,
                       categorySlug = Some slug,
                       allPredictions = predictions\<rparr>
            else scanKeys predictions pred word entries)
      else scanKeys predictions pred word entries)"

fun scanWords ::
  "prediction list \<Rightarrow> prediction \<Rightarrow> string list \<Rightarrow> ScanResult option" where
  "scanWords predictions pred [] = None"
| "scanWords predictions pred (word # ws) =
     (case scanKeys predictions pred word EWASTE_LABEL_MAP of
        Some r \<Rightarrow> Some r
      | None \<Rightarrow> scanWords predictions pred ws)"

fun scanPredictions :: "prediction list \<Rightarrow> prediction list \<Rightarrow> ScanResult option" where
  "scanPredictions predictions [] = None"
| "scanPredictions predictions (pred # ps) =
     (case scanWords predictions pred (words_of (className pred)) of
        Some r \<Rightarrow> Some r
      | None \<Rightarrow> scanPredictions predictions ps)"

text \<open>
  \<^verbatim>\<open>predictions[0]?.className || 'Unknown'\<close> and \<^verbatim>\<open>predictions[0]?.probability || 0\<close>:
  the fallback is taken when there is no first prediction and also when its value is
  falsy (the empty string, zero).
\<close>

definition scanImage :: "prediction list \<Rightarrow> ScanResult" where
  "scanImage predictions =
     (let bestMatch =
            \<lparr>label = (case predictions of
                        [] \<Rightarrow> ''Unknown''
                      | p # _ \<Rightarrow> if className p = [] then ''Unknown'' else className p),
             confidence = (case predictions of
                             [] \<Rightarrow> 0
                           | p # _ \<Rightarrow> if probability p = 0 then 0 else probability p),
             isEwaste = False,
             category = None,
             categorySlug = None,
             allPredictions = predictions\<rparr>
      in case scanPredictions predictions predictions of
           Some r \<Rightarrow> r
         | None \<Rightarrow> bestMatch)"

subsection \<open>The matcher as the specification words it\<close>

text \<open>
  The specification normalises a label by lowercasing it, replacing commas and
  underscores by spaces and splitting it on white space into words; a word is a maximal
  run of characters that are not white space, so it is never empty. \<open>classifySpec\<close> is
  the matcher of the specification's section 4.1 over these words, written to be compared
  with \<open>scanImage\<close>.
\<close>

definition isWhitespace :: "char \<Rightarrow> bool" where
  "isWhitespace c = (c = CHR '' '' \<or> c = CHR 0x09 \<or> c = CHR 0x0A \<or> c = CHR 0x0B
                     \<or> c = CHR 0x0C \<or> c = CHR 0x0D)"

fun wordsSpecAux :: "string \<Rightarrow> string \<Rightarrow> string list" where
  "wordsSpecAux w [] = (if w = [] then [] else [w])"
| "wordsSpecAux w (c # cs) =
     (if isWhitespace c then (if w = [] then wordsSpecAux [] cs else w # wordsSpecAux [] cs)
      else wordsSpecAux (w @ [c]) cs)"

definition wordsSpec :: "string \<Rightarrow> string list" where
  "wordsSpec name = wordsSpecAux [] (replaceCommaUnderscore (toLowerCase name))"

fun scanPredictionsSpec :: "prediction list \<Rightarrow> prediction list \<Rightarrow> ScanResult option" where
  "scanPredictionsSpec predictions [] = None"
| "scanPredictionsSpec predictions (pred # ps) =
     (case scanWords predictions pred (wordsSpec (className pred)) of
        Some r \<Rightarrow> Some r
      | None \<Rightarrow> scanPredictionsSpec predictions ps)"

definition classifySpec :: "prediction list \<Rightarrow> ScanResult" where
  "classifySpec predictions =
     (case scanPredictionsSpec predictions predictions of
        Some r \<Rightarrow> r
      | None \<Rightarrow>
          \<lparr>label = (case predictions of [] \<Rightarrow> ''Unknown'' | p # _ \<Rightarrow> className p),
           confidence = (case predictions of [] \<Rightarrow> 0 | p # _ \<Rightarrow> probability p),
           isEwaste = False,
           category = None,
           categorySlug = None,
           allPredictions = predictions\<rparr>)"

section \<open>The pickup form\<close>

text \<open>
  \<^verbatim>\<open>PickupForm\<close> and \<^verbatim>\<open>StepSelectItems\<close> of the application's main file: the state of the
  form, the handlers of the item step, and \<^verbatim>\<open>handleSubmit\<close>, which creates the request.
\<close>

record formItem =
  categoryId :: string
  categoryName :: string
  quantity :: rat
  condition :: string
  estimatedWeight :: rat

record formLocation =
  address :: string
  city :: string
  state :: string
  zip_code :: string
  lat :: rat
  lng :: rat
  instructions :: string

record formSchedule =
  date :: string
  timeSlot :: string

record formData =
  items :: "formItem list"
  location :: formLocation
  schedule :: formSchedule

text \<open>
  The two object literals of \<^verbatim>\<open>handleSubmit\<close>: the request handed to
  \<^verbatim>\<open>createPickup\<close>, with the three totals computed before the call, and the item handed
  to \<^verbatim>\<open>addPickupItems\<close> for each item of the form.
\<close>

definition newPickupData :: "string \<Rightarrow> formData \<Rightarrow> rat \<Rightarrow> rat \<Rightarrow> rat \<Rightarrow> document" where
  "newPickupData userId fd totalItems totalWeight estimatedCredits =
     [''donorId'' \<mapsto> Str userId,
      ''collectorId'' \<mapsto> Null,
      ''pickupAddress'' \<mapsto> Str (address (location fd)),
      ''pickupCity'' \<mapsto> Str (city (location fd)),
      ''pickupState'' \<mapsto> Str (state (location fd)),
      ''pickupZip'' \<mapsto> Str (zip_code (location fd)),
      ''pickupLatitude'' \<mapsto> Num (lat (location fd)),
      ''pickupLongitude'' \<mapsto> Num (lng (location fd)),
      ''pickupInstructions'' \<mapsto> Str (instructions (location fd)),
      ''preferredDate'' \<mapsto> Str (date (schedule fd)),
      ''preferredTimeSlot'' \<mapsto> Str (timeSlot (schedule fd)),
      ''status'' \<mapsto> Str ''pending'',
      ''totalItems'' \<mapsto> Num totalItems,
      ''estimatedWeightKg'' \<mapsto> Num totalWeight,
      ''actualWeightKg'' \<mapsto> Null,
      ''estimatedCredits'' \<mapsto> Num estimatedCredits,
      ''actualCreditsAwarded'' \<mapsto> Null,
      ''aiScanResults'' \<mapsto> Null,
      ''itemPhotos'' \<mapsto> Arr [],
      ''donorRating'' \<mapsto> Null,
      ''collectorRating'' \<mapsto> Null,
      ''matchedAt'' \<mapsto> Null,
      ''collectedAt'' \<mapsto> Null,
      ''completedAt'' \<mapsto> Null]"

definition newItemData :: "formItem \<Rightarrow> document" where
  "newItemData item =
     [''categoryId'' \<mapsto> Str (categoryId item),
      ''description'' \<mapsto> Null,
      ''quantity'' \<mapsto> Num (quantity item),
      ''condition'' \<mapsto> Str (condition item),
      ''estimatedWeightKg'' \<mapsto> Num (mulDouble (estimatedWeight item) (quantity item)),
      ''actualWeightKg'' \<mapsto> Null,
      ''photoUrl'' \<mapsto> Null,
      ''aiDetectedLabel'' \<mapsto> Null,
      ''aiConfidence'' \<mapsto> Null,
      ''creditsEarned'' \<mapsto> Num 0]"

text \<open>
  \<^verbatim>\<open>handleSubmit\<close> makes two writes one after the other, \<^verbatim>\<open>createPickup\<close> and
  \<^verbatim>\<open>addPickupItems\<close>, each with its own server time and generated ids; an error of
  either is caught and reported. The two \<^verbatim>\<open>reduce\<close> calls run over the items from left
  to right, starting from 0, in the arithmetic of doubles, and \<^verbatim>\<open>Math.round\<close> is applied
  to the double \<^verbatim>\<open>totalWeight * 20\<close>.
\<close>

definition handleSubmit ::
  "string \<Rightarrow> formData \<Rightarrow> env \<Rightarrow> env \<Rightarrow> firestore \<Rightarrow> (error + string) \<times> firestore" where
  "handleSubmit userId fd e1 e2 db =
     (let totalWeight =
            foldl (\<lambda>s i. addDouble s (mulDouble (estimatedWeight i) (quantity i))) 0 (items fd);
          totalItems = foldl (\<lambda>s i. addDouble s (quantity i)) 0 (items fd);
          estimatedCredits = of_int (round (mulDouble totalWeight 20));
          (r1, db1) =
            createPickup (newPickupData userId fd totalItems totalWeight estimatedCredits) e1 db
      in case r1 of
           Inl err \<Rightarrow> (Inl err, db1)
         | Inr newPickupId \<Rightarrow>
             (let (r2, db2) = addPickupItems newPickupId (map newItemData (items fd)) e2 db1
              in case r2 of
                   Inl err \<Rightarrow> (Inl err, db2)
                 | Inr _ \<Rightarrow> (Inr newPickupId, db2)))"

subsection \<open>The item step of the form\<close>

text \<open>
  The handlers of \<^verbatim>\<open>StepSelectItems\<close>. A category is given by its id, its name and its
  average weight, the three fields the handler reads. The minus button sets the
  quantity to \<^verbatim>\<open>Math.max(1, quantity - 1)\<close>, the plus button to \<^verbatim>\<open>quantity + 1\<close>. An
  item is addressed by its category id; a category is added only while the list holds
  no item of it. A quantity starts at 1 and changes by 1 at each event, so it is a
  whole number, and on whole numbers below \<^verbatim>\<open>2^53\<close> the sum and the difference of
  doubles are exact: \<open>+\<close> and \<open>-\<close> are written here.
\<close>

definition toggleCategory :: "string \<Rightarrow> string \<Rightarrow> rat \<Rightarrow> formItem list \<Rightarrow> formItem list" where
  "toggleCategory catId catName avgWeightKg its =
     (if list_ex (\<lambda>i. categoryId i = catId) its
      then filter (\<lambda>i. categoryId i \<noteq> catId) its
      else its @ [\<lparr>categoryId = catId, categoryName = catName, quantity = 1,
                    condition = ''non_working'', estimatedWeight = avgWeightKg\<rparr>])"

definition minusQuantity :: "string \<Rightarrow> formItem list \<Rightarrow> formItem list" where
  "minusQuantity catId its =
     map (\<lambda>i. if categoryId i = catId then i\<lparr>quantity := max 1 (quantity i - 1)\<rparr> else i) its"

definition plusQuantity :: "string \<Rightarrow> formItem list \<Rightarrow> formItem list" where
  "plusQuantity catId its =
     map (\<lambda>i. if categoryId i = catId then i\<lparr>quantity := quantity i + 1\<rparr> else i) its"

definition setCondition :: "string \<Rightarrow> string \<Rightarrow> formItem list \<Rightarrow> formItem list" where
  "setCondition catId cond its =
     map (\<lambda>i. if categoryId i = catId then i\<lparr>condition := cond\<rparr> else i) its"

text \<open>
  What the user can do in the form, as far as the items are concerned. The items are
  edited in step 1 only; the button that leaves step 1 is rendered only while the list
  is not empty; the request is submitted from step 4. The conditions under which steps 2
  and 3 offer their buttons are left out, which only adds behaviours.
\<close>

datatype formEvent =
    Toggle string string rat
  | Minus string
  | Plus string
  | Condition string string
  | Next
  | Back

fun formStep :: "nat \<times> formItem list \<Rightarrow> formEvent \<Rightarrow> nat \<times> formItem list" where
  "formStep (currentStep, its) (Toggle catId catName avgWeightKg) =
     (if currentStep = 1 then (currentStep, toggleCategory catId catName avgWeightKg its)
      else (currentStep, its))"
| "formStep (currentStep, its) (Minus catId) =
     (if currentStep = 1 then (currentStep, minusQuantity catId its) else (currentStep, its))"
| "formStep (currentStep, its) (Plus catId) =
     (if currentStep = 1 then (currentStep, plusQuantity catId its) else (currentStep, its))"
| "formStep (currentStep, its) (Condition catId cond) =
     (if currentStep = 1 then (currentStep, setCondition catId cond its) else (currentStep, its))"
| "formStep (currentStep, its) Next =
     (if currentStep = 1 \<and> \<not> length its > 0 then (currentStep, its)
      else (min (currentStep + 1) 4, its))"
| "formStep (currentStep, its) Back = (max (currentStep - 1) 1, its)"

definition formRun :: "formEvent list \<Rightarrow> nat \<times> formItem list" where
  "formRun evs = foldl formStep (1, []) evs"

section \<open>Notions for stating the properties\<close>

subsection \<open>Reading the store\<close>

text \<open>
  The value of one field of one document, absent when the document or the field is;
  and the number a field holds, \<open>0\<close> when it holds none, which is the base that
  \<^verbatim>\<open>increment\<close> adds to.
\<close>

definition fieldOf :: "firestore \<Rightarrow> collection \<Rightarrow> string \<Rightarrow> string \<Rightarrow> fsValue option" where
  "fieldOf db c i k = (case db c i of None \<Rightarrow> None | Some d \<Rightarrow> d k)"

definition numField :: "document \<Rightarrow> string \<Rightarrow> rat" where
  "numField d k = (case d k of Some (Num x) \<Rightarrow> x | _ \<Rightarrow> 0)"

text \<open>
  What the field \<open>k\<close> of a document \<open>d\<close> holds once it has been increased by \<open>n\<close>: the
  number it held, or 0, plus \<open>n\<close>, unless it held \<open>NaN\<close>, which stays. And once it has
  been increased by what a field of another document holds: by that number, and a
  field that holds no number makes it \<open>NaN\<close>.
\<close>

definition incremented :: "document \<Rightarrow> string \<Rightarrow> rat \<Rightarrow> fsValue" where
  "incremented d k n = (if d k = Some NaN then NaN else Num (numField d k + n))"

definition incrementedBy :: "document \<Rightarrow> string \<Rightarrow> fsValue option \<Rightarrow> fsValue" where
  "incrementedBy d k v = (case v of Some (Num n) \<Rightarrow> incremented d k n | _ \<Rightarrow> NaN)"

text \<open>The sum of a list of doubles as \<^verbatim>\<open>reduce\<close> adds it up, from the left, starting from 0.\<close>

definition sumDouble :: "rat list \<Rightarrow> rat" where
  "sumDouble xs = foldl addDouble 0 xs"

subsection \<open>Batches and runs\<close>

fun writeColl :: "batchWrite \<Rightarrow> collection" where
  "writeColl (BatchSet c i d) = c"
| "writeColl (BatchUpdate c i d) = c"

text \<open>
  The store after a list of \<open>set\<close> writes to one collection, which is what a batch of
  such writes commits.
\<close>

fun setsOf :: "nat \<Rightarrow> collection \<Rightarrow> (string \<times> writeData) list \<Rightarrow> firestore \<Rightarrow> firestore" where
  "setsOf t c [] db = db"
| "setsOf t c ((i, d) # ws) db = setsOf t c ws (db(c := (db c)(i \<mapsto> setData t d)))"

text \<open>A run of awards, one after the other.\<close>

fun awards :: "(string \<times> rat \<times> rat \<times> env) list \<Rightarrow> firestore \<Rightarrow> firestore" where
  "awards [] db = db"
| "awards ((p, w, c, e) # calls) db =
     awards calls (snd (completePickupAndAwardCredits p w c e db))"

subsection \<open>The form\<close>

text \<open>The invariant of the form: what holds of the step and the items at any time.\<close>

definition formInv :: "nat \<times> formItem list \<Rightarrow> bool" where
  "formInv s = (list_all (\<lambda>i. quantity i \<ge> 1) (snd s)
                \<and> 1 \<le> fst s \<and> fst s \<le> 4
                \<and> (if fst s \<ge> 2 then snd s \<noteq> [] else True))"

subsection \<open>The scan\<close>

text \<open>
  The first hit of the scan, for stating what the loops compute: the first key of a list
  of entries that a word matches, and the first word of a list that matches a key of the
  map, each with the category and the slug of the key; and the positive decision for a
  prediction and a hit.
\<close>

fun firstKey :: "string \<Rightarrow> (string \<times> string \<times> string) list \<Rightarrow> (string \<times> string) option" where
  "firstKey word [] = None"
| "firstKey word ((key, cat, slug) # entries) =
     (if includes_str word (toLowerCase key) \<or> includes_str (toLowerCase key) word
      then Some (cat, slug) else firstKey word entries)"

fun firstHit :: "string list \<Rightarrow> (string \<times> string) option" where
  "firstHit [] = None"
| "firstHit (word # ws) =
     (case firstKey word EWASTE_LABEL_MAP of Some h \<Rightarrow> Some h | None \<Rightarrow> firstHit ws)"

definition positive :: "prediction list \<Rightarrow> prediction \<Rightarrow> string \<times> string \<Rightarrow> ScanResult" where
  "positive predictions pred h =
     \<lparr>label = className pred, confidence = probability pred, isEwaste = True,
      category = Some (fst h), categorySlug = Some (snd h), allPredictions = predictions\<rparr>"

section \<open>Example data\<close>

text \<open>
  Two environments, which generate different ids, the empty store, and a store with one
  notification.
\<close>

definition env0 :: env where
  "env0 = \<lparr>serverTime = 1000, clientTime = ''2026-01-01T00:00:00.000Z'',
           autoId = (\<lambda>i. if i = 0 then ''id0'' else ''id1''),
           numberToString = (\<lambda>x. ''12'')\<rparr>"

definition env1 :: env where
  "env1 = \<lparr>serverTime = 2000, clientTime = ''2026-01-02T00:00:00.000Z'',
           autoId = (\<lambda>i. if i = 0 then ''id2'' else ''id3''),
           numberToString = (\<lambda>x. ''12'')\<rparr>"

definition dbEmpty :: firestore where
  "dbEmpty = (\<lambda>c. Map.empty)"

definition dbNotif :: firestore where
  "dbNotif =
     (\<lambda>c. Map.empty)
       (Notifications := [''n1'' \<mapsto> [''userId'' \<mapsto> Str ''u1'', ''title'' \<mapsto> Str ''Hello'']])"

text \<open>
  A store with one request \<open>p1\<close> of donor \<open>u1\<close> in a given status, and the donor's
  profile.
\<close>

definition pickupDoc :: "string \<Rightarrow> document" where
  "pickupDoc st =
     [''donorId'' \<mapsto> Str ''u1'', ''status'' \<mapsto> Str st, ''totalItems'' \<mapsto> Num 2,
      ''estimatedWeightKg'' \<mapsto> Num (toDouble 0.4), ''estimatedCredits'' \<mapsto> Num 8]"

definition profileDoc :: document where
  "profileDoc =
     [''id'' \<mapsto> Str ''u1'', ''greenCredits'' \<mapsto> Num 100, ''totalItemsRecycled'' \<mapsto> Num 5,
      ''totalWeightKg'' \<mapsto> Num 10, ''co2SavedKg'' \<mapsto> Num 15,
      ''badgeLevel'' \<mapsto> Str ''seedling'']"

definition dbWith :: "string \<Rightarrow> firestore" where
  "dbWith st =
     (\<lambda>c. Map.empty)(Pickups := [''p1'' \<mapsto> pickupDoc st], Profiles := [''u1'' \<mapsto> profileDoc])"

text \<open>The same store when the request lacks the field \<open>totalItems\<close>.\<close>

definition dbNoTotal :: firestore where
  "dbNoTotal =
     (\<lambda>c. Map.empty)
       (Pickups := [''p1'' \<mapsto> [''donorId'' \<mapsto> Str ''u1'', ''status'' \<mapsto> Str ''collected'']],
        Profiles := [''u1'' \<mapsto> profileDoc])"

text \<open>
  The store after the request \<open>p1\<close>, collected, has been completed once with 12 kg and
  240 credits, and the request as it then is.
\<close>

definition completedDoc :: document where
  "completedDoc =
     (pickupDoc ''collected'')
       (''status'' \<mapsto> Str ''completed'', ''actualWeightKg'' \<mapsto> Num 12,
        ''actualCreditsAwarded'' \<mapsto> Num 240,
        ''completedAt'' \<mapsto> Timestamp 1000, ''updatedAt'' \<mapsto> Timestamp 1000)"

definition dbCompleted :: firestore where
  "dbCompleted = snd (completePickupAndAwardCredits ''p1'' 12 240 env0 (dbWith ''collected''))"

text \<open>
  A run of the public operations from the empty store: a profile is created for \<open>u1\<close>
  with no overriding data, a collected request of \<open>u1\<close> is created, and it is completed
  with 5 kg and \<open>c\<close> credits.
\<close>

definition awardRun :: "rat \<Rightarrow> firestore" where
  "awardRun c =
     (let db0 = snd (createProfile ''u1'' Map.empty env0 (\<lambda>cl. Map.empty));
          db1 = snd (createPickup
                       [''donorId'' \<mapsto> Str ''u1'', ''status'' \<mapsto> Str ''collected'',
                        ''totalItems'' \<mapsto> Num 2] env0 db0)
      in snd (completePickupAndAwardCredits ''id0'' 5 c env1 db1))"

text \<open>
  Form data with given items; an item in a given quantity whose weight per unit is the
  double that a given decimal denotes; and an item of the category of phones, 0.2 kg
  each, in a given quantity: quantity 2 is the example of the specification.
\<close>

definition formWith :: "formItem list \<Rightarrow> formData" where
  "formWith its =
     \<lparr>items = its,
      location = \<lparr>address = ''1 Main St'', city = ''Pune'', state = ''MH'', zip_code = ''411001'',
                  lat = 18.5, lng = toDouble 73.8, instructions = ''''\<rparr>,
      schedule = \<lparr>date = ''2026-02-01'', timeSlot = ''morning''\<rparr>\<rparr>"

definition weighedItem :: "rat \<Rightarrow> rat \<Rightarrow> formItem" where
  "weighedItem q w =
     \<lparr>categoryId = ''smartphones'', categoryName = ''Smartphones & Tablets'', quantity = q,
      condition = ''non_working'', estimatedWeight = toDouble w\<rparr>"

definition phoneItem :: "rat \<Rightarrow> formItem" where
  "phoneItem q = weighedItem q 0.2"

text \<open>
  Predictions as the classifier returns them for a cat lying on a laptop, and for a cat
  alone; \<open>tabby, tabby cat\<close> is one of the classifier's labels.
\<close>

definition catAndLaptop :: "prediction list" where
  "catAndLaptop =
     [\<lparr>className = ''tabby, tabby cat'', probability = 0.6\<rparr>,
      \<lparr>className = ''laptop'', probability = 0.3\<rparr>]"

definition catOnly :: "prediction list" where
  "catOnly = [\<lparr>className = ''tabby, tabby cat'', probability = 0.6\<rparr>]"

section \<open>Facts about batches\<close>

lemma applyWrite_other:
  "applyWrite t w db = Inr db' \<Longrightarrow> writeColl w \<noteq> c \<Longrightarrow> db' c = db c"
  by (cases w) (auto split: option.splits)

lemma applyWrites_other:
  "applyWrites t ws db = Inr db' \<Longrightarrow> (\<And>w. w \<in> set ws \<Longrightarrow> writeColl w \<noteq> c) \<Longrightarrow> db' c = db c"
proof (induction ws arbitrary: db)
  case Nil
  then show ?case by simp
next
  case (Cons w ws)
  then obtain db1 where 1: "applyWrite t w db = Inr db1" and 2: "applyWrites t ws db1 = Inr db'"
    by (auto split: sum.splits)
  have "db1 c = db c" using applyWrite_other[OF 1] Cons.prems(2) by simp
  moreover have "db' c = db1 c" using Cons.IH[OF 2] Cons.prems(2) by simp
  ultimately show ?case by simp
qed

lemma commit_other:
  "(\<And>w. w \<in> set ws \<Longrightarrow> writeColl w \<noteq> c) \<Longrightarrow> snd (commit t ws db) c = db c"
  by (auto simp: commit_def split: sum.splits dest: applyWrites_other)

lemma commit_fail_unchanged: "fst (commit t ws db) = Inl err \<Longrightarrow> snd (commit t ws db) = db"
  by (auto simp: commit_def split: sum.splits)

section \<open>Notifications and their read flag\<close>

lemma exec_notifications:
  assumes "c \<noteq> MarkNotificationAsRead n"
  shows "exec c e db Notifications n = db Notifications n \<or>
         (\<exists>d'. exec c e db Notifications n = Some d' \<and> d' ''isRead'' \<noteq> Some (Bool True))"
proof (cases c)
  case (CreateProfile u d)
  then show ?thesis by (simp add: createProfile_def setDoc_def commit_def Let_def)
next
  case (UpdateProfile u d)
  then show ?thesis by (simp add: updateProfile_def updateDoc_def commit_def split: option.splits)
next
  case (CreatePickup d)
  then show ?thesis by (simp add: createPickup_def addDoc_def setDoc_def commit_def)
next
  case (UpdatePickupStatus p s a)
  then show ?thesis
    by (simp add: updatePickupStatus_def updateDoc_def commit_def Let_def split: option.splits)
next
  case (AcceptPickup p k)
  then show ?thesis by (simp add: acceptPickup_def updateDoc_def commit_def split: option.splits)
next
  case (AddPickupItems p its)
  have "snd (addPickupItems p its e db) Notifications = db Notifications"
    unfolding addPickupItems_def by (rule commit_other) auto
  then show ?thesis using AddPickupItems by simp
next
  case (AddCreditTransaction d)
  then show ?thesis by (simp add: addCreditTransaction_def addDoc_def setDoc_def commit_def)
next
  case (CreateNotification d)
  then show ?thesis
    by (simp add: createNotification_def addDoc_def setDoc_def commit_def setData_def)
next
  case (MarkNotificationAsRead m)
  then show ?thesis using assms
    by (auto simp add: markNotificationAsRead_def updateDoc_def commit_def split: option.splits)
next
  case SeedAchievements
  have "snd (seedAchievements e db) Notifications = db Notifications"
    unfolding seedAchievements_def by (rule commit_other) auto
  then show ?thesis using SeedAchievements by simp
next
  case SeedEwasteCategories
  have "snd (seedEwasteCategories e db) Notifications = db Notifications"
    unfolding seedEwasteCategories_def by (rule commit_other) auto
  then show ?thesis using SeedEwasteCategories by simp
next
  case (CompletePickupAndAwardCredits p w k)
  then show ?thesis
    by (simp add: completePickupAndAwardCredits_def getDoc_def commit_def setData_def
        split: option.splits)
qed

text \<open>
  C10. Whatever record \<open>createNotification\<close> is given, also one that carries
  \<open>isRead = true\<close>, the notification it stores has \<open>isRead = false\<close>. Afterwards, a
  call of the services after which a notification's \<open>isRead\<close> is true, when it was not
  before, is \<open>markNotificationAsRead\<close> of that notification; and
  \<open>markNotificationAsRead\<close> of an existing notification sets its \<open>isRead\<close> to true and
  changes no other field and no other document (of a missing one it is rejected and
  changes nothing).
\<close>

theorem notification_read_flag:
  "(\<exists>d. snd (createNotification data e db) Notifications (autoId e 0) = Some d
         \<and> d ''isRead'' = Some (Bool False))
   \<and> fst (createNotification data e db) = Inr (autoId e 0)
   \<and> (\<forall>c n d'. exec c e db Notifications n = Some d' \<and> d' ''isRead'' = Some (Bool True)
          \<and> (\<forall>d. db Notifications n = Some d \<longrightarrow> d ''isRead'' \<noteq> Some (Bool True))
          \<longrightarrow> c = MarkNotificationAsRead n)
   \<and> (\<forall>n d. db Notifications n = Some d \<longrightarrow>
          markNotificationAsRead n e db =
            (Inr (), db(Notifications := (db Notifications)(n \<mapsto> d(''isRead'' \<mapsto> Bool True)))))
   \<and> (\<forall>n. db Notifications n = None \<longrightarrow>
          markNotificationAsRead n e db = (Inl (NotFound Notifications n), db))"
proof (intro conjI allI impI)
  show "\<exists>d. snd (createNotification data e db) Notifications (autoId e 0) = Some d
         \<and> d ''isRead'' = Some (Bool False)"
    by (simp add: createNotification_def addDoc_def setDoc_def commit_def setData_def)
  show "fst (createNotification data e db) = Inr (autoId e 0)"
    by (simp add: createNotification_def addDoc_def)
next
  fix c n d'
  assume a: "exec c e db Notifications n = Some d' \<and> d' ''isRead'' = Some (Bool True)
          \<and> (\<forall>d. db Notifications n = Some d \<longrightarrow> d ''isRead'' \<noteq> Some (Bool True))"
  show "c = MarkNotificationAsRead n"
  proof (rule ccontr)
    assume "c \<noteq> MarkNotificationAsRead n"
    from exec_notifications[OF this, of e db] a show False by auto
  qed
next
  fix n d assume "db Notifications n = Some d"
  then show "markNotificationAsRead n e db =
            (Inr (), db(Notifications := (db Notifications)(n \<mapsto> d(''isRead'' \<mapsto> Bool True))))"
    by (auto simp: markNotificationAsRead_def updateDoc_def commit_def updateData_def fun_eq_iff)
next
  fix n assume "db Notifications n = None"
  then show "markNotificationAsRead n e db = (Inl (NotFound Notifications n), db)"
    by (simp add: markNotificationAsRead_def updateDoc_def commit_def)
qed

theorem notification_read_flag_witness:
  "(\<exists>d. snd (createNotification [''userId'' \<mapsto> Str ''u1'', ''isRead'' \<mapsto> Bool True] env0 dbNotif)
           Notifications ''id0'' = Some d \<and> d ''isRead'' = Some (Bool False))
   \<and> exec (MarkNotificationAsRead ''n1'') env0 dbNotif Notifications ''n1''
       = Some [''userId'' \<mapsto> Str ''u1'', ''title'' \<mapsto> Str ''Hello'', ''isRead'' \<mapsto> Bool True]
   \<and> markNotificationAsRead ''n1'' env0 dbNotif =
        (Inr (), dbNotif(Notifications := (dbNotif Notifications)(''n1'' \<mapsto>
            [''userId'' \<mapsto> Str ''u1'', ''title'' \<mapsto> Str ''Hello'', ''isRead'' \<mapsto> Bool True])))
   \<and> markNotificationAsRead ''n2'' env0 dbNotif = (Inl (NotFound Notifications ''n2''), dbNotif)"
proof -
  have n1: "dbNotif Notifications ''n1''
              = Some [''userId'' \<mapsto> Str ''u1'', ''title'' \<mapsto> Str ''Hello'']"
    by (simp add: dbNotif_def)
  have n2: "dbNotif Notifications ''n2'' = None"
    by (simp add: dbNotif_def)
  note t = notification_read_flag
             [of "[''userId'' \<mapsto> Str ''u1'', ''isRead'' \<mapsto> Bool True]" env0 dbNotif]
  have a0: "autoId env0 0 = ''id0''" by (simp add: env0_def)
  from t have 1:
    "\<exists>d. snd (createNotification [''userId'' \<mapsto> Str ''u1'', ''isRead'' \<mapsto> Bool True] env0 dbNotif)
           Notifications ''id0'' = Some d \<and> d ''isRead'' = Some (Bool False)"
    unfolding a0 by blast
  from t n1 have 3: "markNotificationAsRead ''n1'' env0 dbNotif =
        (Inr (), dbNotif(Notifications := (dbNotif Notifications)(''n1'' \<mapsto>
            [''userId'' \<mapsto> Str ''u1'', ''title'' \<mapsto> Str ''Hello'', ''isRead'' \<mapsto> Bool True])))"
    by blast
  from t n2 have 4:
    "markNotificationAsRead ''n2'' env0 dbNotif = (Inl (NotFound Notifications ''n2''), dbNotif)"
    by blast
  from 3 have 2: "exec (MarkNotificationAsRead ''n1'') env0 dbNotif Notifications ''n1''
       = Some [''userId'' \<mapsto> Str ''u1'', ''title'' \<mapsto> Str ''Hello'', ''isRead'' \<mapsto> Bool True]"
    by simp
  from 1 2 3 4 show ?thesis by blast
qed

section \<open>Facts about the arithmetic of doubles\<close>

text \<open>
  \<open>exponentOf\<close> is the exponent, and \<open>toDouble x\<close> is a multiple of the spacing of the
  doubles around \<open>x\<close> that lies within half that spacing of \<open>x\<close>.
\<close>

lemma bitLength_pos: "0 < n \<Longrightarrow> 1 \<le> bitLength n"
proof (induction n rule: bitLength.induct)
  case (1 n)
  show ?case
  proof (cases "0 < n div 2")
    case True
    then have "1 \<le> bitLength (n div 2)" using 1 by simp
    then show ?thesis using "1.prems" by (subst bitLength.simps) simp
  next
    case False
    then have "bitLength (n div 2) = 0" by (subst bitLength.simps) simp
    then show ?thesis using "1.prems" by (subst bitLength.simps) simp
  qed
qed

lemma bitLength_bounds:
  "0 < n \<Longrightarrow> 2 ^ nat (bitLength n - 1) \<le> n \<and> n < 2 ^ nat (bitLength n)"
proof (induction n rule: bitLength.induct)
  case (1 n)
  have bl: "bitLength n = 1 + bitLength (n div 2)"
    using "1.prems" by (subst bitLength.simps) simp
  show ?case
  proof (cases "0 < n div 2")
    case False
    then have n1: "n = 1" using "1.prems" by (simp add: pos_imp_zdiv_pos_iff)
    have "bitLength (n div 2) = 0" using False by (subst bitLength.simps) simp
    then show ?thesis unfolding bl using n1 by simp
  next
    case True
    have IH: "2 ^ nat (bitLength (n div 2) - 1) \<le> n div 2 \<and> n div 2 < 2 ^ nat (bitLength (n div 2))"
      using 1 True by simp
    have p: "1 \<le> bitLength (n div 2)" using True by (rule bitLength_pos)
    define j where "j = nat (bitLength (n div 2) - 1)"
    have j1: "nat (bitLength (n div 2)) = Suc j" using p by (simp add: j_def)
    have j2: "nat (1 + bitLength (n div 2) - 1) = Suc j" using p by (simp add: j_def)
    have j3: "nat (1 + bitLength (n div 2)) = Suc (Suc j)" using p by (simp add: j_def)
    from IH have lo: "2 ^ j \<le> n div 2" and hi: "n div 2 < 2 ^ Suc j"
      unfolding j_def[symmetric] j1 by simp_all
    have "2 * 2 ^ j \<le> n" using lo by linarith
    moreover have "n < 2 * 2 ^ Suc j" using hi by linarith
    ultimately show ?thesis unfolding bl j2 j3 by simp
  qed
qed

lemma pow2_diff: "pow2 (int a - int b) = 2 ^ a / 2 ^ b"
proof (cases "b \<le> a")
  case True
  then have "pow2 (int a - int b) = 2 ^ (a - b)"
    by (simp add: pow2_def nat_diff_distrib')
  then show ?thesis using True by (simp add: power_diff)
next
  case False
  then have "pow2 (int a - int b) = 1 / 2 ^ (b - a)"
    by (simp add: pow2_def nat_diff_distrib')
  moreover have "(2::rat) ^ b = 2 ^ (b - a) * 2 ^ a"
    using False by (simp flip: power_add)
  ultimately show ?thesis by simp
qed

lemma pow2_Suc: "pow2 (k + 1) = 2 * pow2 k"
proof -
  consider "0 \<le> k" | "k = - 1" | "k < - 1" by linarith
  then show ?thesis
  proof cases
    case 1
    then show ?thesis by (simp add: pow2_def nat_add_distrib)
  next
    case 2
    then show ?thesis by (simp add: pow2_def)
  next
    case 3
    then have "nat (- k) = Suc (nat (- (k + 1)))" by simp
    then show ?thesis using 3 by (simp add: pow2_def)
  qed
qed

lemma exponentOf_bounds:
  assumes "x \<noteq> 0"
  shows "pow2 (exponentOf x) \<le> \<bar>x\<bar> \<and> \<bar>x\<bar> < pow2 (exponentOf x + 1)"
proof -
  obtain p q where pq: "quotient_of \<bar>x\<bar> = (p, q)" by (cases "quotient_of \<bar>x\<bar>")
  have q: "0 < q" using pq by (rule quotient_of_denom_pos)
  have x: "\<bar>x\<bar> = of_int p / of_int q" using pq by (rule quotient_of_div)
  have "0 < \<bar>x\<bar>" using assms by simp
  then have p: "0 < p" unfolding x using q by (simp add: zero_less_divide_iff)
  define a where "a = nat (bitLength p - 1)"
  define b where "b = nat (bitLength q - 1)"
  have ba: "bitLength p = int a + 1" using bitLength_pos[OF p] by (simp add: a_def)
  have bb: "bitLength q = int b + 1" using bitLength_pos[OF q] by (simp add: b_def)
  have pa: "2 ^ a \<le> p" "p < 2 ^ Suc a"
    using bitLength_bounds[OF p] unfolding ba by (simp_all add: nat_add_distrib)
  have qb: "2 ^ b \<le> q" "q < 2 ^ Suc b"
    using bitLength_bounds[OF q] unfolding bb by (simp_all add: nat_add_distrib)
  have rp: "(2::rat) ^ a \<le> of_int p" "(of_int p :: rat) < 2 ^ Suc a"
    using pa by (metis of_int_le_iff of_int_numeral of_int_power,
                 metis of_int_less_iff of_int_numeral of_int_power)
  have rq: "(2::rat) ^ b \<le> of_int q" "(of_int q :: rat) < 2 ^ Suc b"
    using qb by (metis of_int_le_iff of_int_numeral of_int_power,
                 metis of_int_less_iff of_int_numeral of_int_power)
  have qpos: "(0::rat) < of_int q" using q by simp
  define k where "k = bitLength p - bitLength q"
  have k: "k = int a - int b" by (simp add: k_def ba bb)
  have lo: "pow2 (k - 1) \<le> \<bar>x\<bar>"
  proof -
    have "k - 1 = int a - int (Suc b)" by (simp add: k)
    then have "pow2 (k - 1) = 2 ^ a / 2 ^ Suc b"
      by (simp only: pow2_diff)
    also have "\<dots> \<le> of_int p / 2 ^ Suc b" using rp(1) by (simp add: divide_right_mono)
    also have "\<dots> \<le> of_int p / of_int q"
      using rq(2) qpos p by (intro divide_left_mono) (simp_all add: less_imp_le)
    finally show ?thesis unfolding x .
  qed
  have hi: "\<bar>x\<bar> < pow2 (k + 1)"
  proof -
    have "of_int p / of_int q < 2 ^ Suc a / (of_int q :: rat)"
      using rp(2) qpos by (simp add: divide_strict_right_mono)
    also have "\<dots> \<le> 2 ^ Suc a / 2 ^ b"
      using rq(1) qpos by (intro divide_left_mono) simp_all
    also have "\<dots> = pow2 (k + 1)"
    proof -
      have "k + 1 = int (Suc a) - int b" by (simp add: k)
      then show ?thesis by (simp only: pow2_diff)
    qed
    finally show ?thesis unfolding x .
  qed
  have e: "exponentOf x = (if pow2 k \<le> \<bar>x\<bar> then k else k - 1)"
    unfolding exponentOf_def pq by (simp add: Let_def k_def)
  show ?thesis
  proof (cases "pow2 k \<le> \<bar>x\<bar>")
    case True
    then show ?thesis using hi by (simp add: e)
  next
    case False
    then show ?thesis using lo by (simp add: e)
  qed
qed

lemma pow2_pos: "0 < pow2 k"
  by (simp add: pow2_def)

lemma roundTiesToEven_nearest: "\<bar>of_int (roundTiesToEven y) - y\<bar> \<le> 1 / 2"
proof -
  have "of_int \<lfloor>y\<rfloor> \<le> y" "y < of_int \<lfloor>y\<rfloor> + 1" by linarith+
  then show ?thesis
    by (auto simp: roundTiesToEven_def Let_def abs_le_iff)
qed

lemma toDouble_nearest:
  "\<bar>toDouble x - x\<bar> \<le> pow2 (max (exponentOf x) (- 1022) - 52) / 2"
proof (cases "x = 0")
  case True
  then show ?thesis using pow2_pos[of "max (exponentOf x) (- 1022) - 52"]
    by (simp add: toDouble_def)
next
  case False
  define u where "u = pow2 (max (exponentOf x) (- 1022) - 52)"
  have u: "0 < u" unfolding u_def by (rule pow2_pos)
  have "toDouble x - x = (of_int (roundTiesToEven (x / u)) - x / u) * u"
    using False u by (simp add: toDouble_def Let_def u_def[symmetric] algebra_simps)
  then have "\<bar>toDouble x - x\<bar> = \<bar>of_int (roundTiesToEven (x / u)) - x / u\<bar> * u"
    using u by (simp add: abs_mult)
  also have "\<dots> \<le> 1 / 2 * u"
    using roundTiesToEven_nearest[of "x / u"] u by (intro mult_right_mono) simp_all
  finally show ?thesis by (simp add: u_def)
qed

text \<open>
  Whole numbers below \<^verbatim>\<open>2^53\<close> are doubles, and a sum of them that stays below
  \<^verbatim>\<open>2^53\<close> is added up exactly.
\<close>

lemma bitLength_bound: "n < 2 ^ m \<Longrightarrow> bitLength n \<le> int m"
proof (induction m arbitrary: n)
  case 0
  then show ?case by (simp add: bitLength.simps)
next
  case (Suc m)
  show ?case
  proof (cases "n \<le> 0")
    case True
    then show ?thesis by (simp add: bitLength.simps)
  next
    case False
    have "n div 2 < 2 ^ m" using Suc.prems by simp
    then have "bitLength (n div 2) \<le> int m" by (rule Suc.IH)
    then show ?thesis using False by (subst bitLength.simps) simp
  qed
qed

lemma bitLength_one: "bitLength 1 = 1"
  by (simp add: bitLength.simps)

lemma exponentOf_of_int:
  assumes "\<bar>n\<bar> < 2 ^ 53"
  shows "exponentOf (of_int n) \<le> 52"
proof -
  have q: "quotient_of \<bar>of_int n :: rat\<bar> = (\<bar>n\<bar>, 1)"
    by (simp flip: of_int_abs)
  have "bitLength \<bar>n\<bar> \<le> int 53" using assms by (rule bitLength_bound)
  then show ?thesis
    unfolding exponentOf_def q by (simp add: Let_def bitLength_one)
qed

lemma roundTiesToEven_of_int: "roundTiesToEven (of_int m) = m"
  by (simp add: roundTiesToEven_def)

lemma toDouble_of_int:
  assumes "\<bar>n\<bar> < 2 ^ 53"
  shows "toDouble (of_int n) = of_int n"
proof (cases "n = 0")
  case True
  then show ?thesis by (simp add: toDouble_def)
next
  case False
  define e where "e = max (exponentOf (of_int n)) (- 1022)"
  have e: "e \<le> 52" unfolding e_def using exponentOf_of_int[OF assms] by simp
  define j where "j = nat (52 - e)"
  have u: "pow2 (e - 52) = 1 / 2 ^ j"
    using e by (auto simp: pow2_def j_def)
  have "of_int n / pow2 (e - 52) = (of_int (n * 2 ^ j) :: rat)"
    unfolding u by simp
  then have "roundTiesToEven (of_int n / pow2 (e - 52)) = n * 2 ^ j"
    by (simp only: roundTiesToEven_of_int)
  then show ?thesis
    using False unfolding toDouble_def Let_def e_def[symmetric] u by simp
qed

lemma toDouble_of_nat: "k < 2 ^ 53 \<Longrightarrow> toDouble (of_nat k) = of_nat k"
  using toDouble_of_int[of "int k"] by simp

lemma foldl_addDouble_exact:
  "a \<in> \<nat> \<Longrightarrow> \<forall>x\<in>set xs. x \<in> \<nat> \<Longrightarrow> a + sum_list xs < 2 ^ 53 \<Longrightarrow>
   foldl addDouble a xs = a + sum_list xs"
proof (induction xs arbitrary: a)
  case Nil
  then show ?case by simp
next
  case (Cons x xs)
  have x: "x \<in> \<nat>" and xs: "\<forall>y\<in>set xs. y \<in> \<nat>" using Cons.prems(2) by simp_all
  have nn: "0 \<le> sum_list xs" using xs by (induction xs) (auto simp: Nats_def)
  obtain k where k: "a + x = of_nat k" using Cons.prems(1) x by (metis Nats_add Nats_cases)
  have "a + x < 2 ^ 53" using Cons.prems(3) nn by simp
  then have "k < 2 ^ 53" unfolding k by (metis of_nat_less_iff of_nat_numeral of_nat_power)
  then have ax: "addDouble a x = a + x" unfolding addDouble_def k by (rule toDouble_of_nat)
  have "foldl addDouble (a + x) xs = (a + x) + sum_list xs"
    using Cons.prems x xs by (intro Cons.IH) (simp_all add: add.assoc)
  then show ?case by (simp add: ax add.assoc)
qed

lemma sumDouble_exact:
  "\<forall>x\<in>set xs. x \<in> \<nat> \<Longrightarrow> sum_list xs < 2 ^ 53 \<Longrightarrow> sumDouble xs = sum_list xs"
  using foldl_addDouble_exact[of 0 xs] by (simp add: sumDouble_def)

section \<open>Completing a pickup\<close>

lemma resolve_Increment: "resolve t (d k) (Increment n) = incremented d k n"
proof (cases "d k")
  case None
  then show ?thesis by (simp add: incremented_def numField_def)
next
  case (Some v)
  then show ?thesis by (cases v) (simp_all add: incremented_def numField_def)
qed

lemma resolve_increment: "resolve t (d k) (increment v) = incrementedBy d k v"
  by (cases v rule: increment.cases) (simp_all add: incrementedBy_def resolve_Increment)

lemma incremented_Num: "d k = Some (Num x) \<Longrightarrow> incremented d k n = Num (x + n)"
  by (simp add: incremented_def numField_def)

lemma asStr_Some: "asStr v = Some s \<longleftrightarrow> v = Some (Str s)"
  by (cases v rule: asStr.cases) auto

text \<open>
  The outcome of \<open>completePickupAndAwardCredits\<close>, case by case: it reads the request
  and its donor, and commits one batch of four writes, which Firestore rejects as a
  whole when the donor's profile does not exist.
\<close>

lemma complete_no_pickup:
  "db Pickups p = None \<Longrightarrow>
   completePickupAndAwardCredits p w c e db = (Inl PickupNotFound, db)"
  by (simp add: completePickupAndAwardCredits_def getDoc_def)

lemma complete_no_profile:
  "db Pickups p = Some pickup \<Longrightarrow> pickup ''donorId'' = Some (Str d) \<Longrightarrow>
   db Profiles d = None \<Longrightarrow>
   completePickupAndAwardCredits p w c e db = (Inl (NotFound Profiles d), db)"
  by (simp add: completePickupAndAwardCredits_def getDoc_def commit_def)

lemma complete_fail_unchanged:
  "fst (completePickupAndAwardCredits p w c e db) = Inl err \<Longrightarrow>
   snd (completePickupAndAwardCredits p w c e db) = db"
  by (auto simp: completePickupAndAwardCredits_def getDoc_def commit_def
           split: option.splits sum.splits)

lemma complete_success_iff:
  "fst (completePickupAndAwardCredits p w c e db) = Inr () \<longleftrightarrow>
   (\<exists>pickup d. db Pickups p = Some pickup \<and> pickup ''donorId'' = Some (Str d)
       \<and> db Profiles d \<noteq> None)"
  by (auto simp: completePickupAndAwardCredits_def getDoc_def commit_def asStr_Some
           split: option.splits sum.splits)

lemma complete_success:
  fixes p :: string and w c :: rat and e :: env and db :: firestore
  assumes "db Pickups p = Some pickup" "pickup ''donorId'' = Some (Str d)"
    "db Profiles d = Some profile"
  defines "db' \<equiv> snd (completePickupAndAwardCredits p w c e db)"
  shows "fst (completePickupAndAwardCredits p w c e db) = Inr ()"
    and "db' Pickups =
           (db Pickups)(p \<mapsto> pickup(''status'' \<mapsto> Str ''completed'',
                                     ''actualWeightKg'' \<mapsto> Num w,
                                     ''actualCreditsAwarded'' \<mapsto> Num c,
                                     ''completedAt'' \<mapsto> Timestamp (serverTime e),
                                     ''updatedAt'' \<mapsto> Timestamp (serverTime e)))"
    and "db' Profiles =
           (db Profiles)(d \<mapsto> profile
              (''greenCredits'' \<mapsto> incremented profile ''greenCredits'' c,
               ''totalItemsRecycled'' \<mapsto>
                  incrementedBy profile ''totalItemsRecycled'' (pickup ''totalItems''),
               ''totalWeightKg'' \<mapsto> incremented profile ''totalWeightKg'' w,
               ''co2SavedKg'' \<mapsto> incremented profile ''co2SavedKg'' (mulDouble w 1.5),
               ''lastActivityAt'' \<mapsto> Str (clientTime e),
               ''updatedAt'' \<mapsto> Timestamp (serverTime e)))"
    and "\<And>i. i \<noteq> autoId e 0 \<Longrightarrow> db' CreditTransactions i = db CreditTransactions i"
    and "fieldOf db' CreditTransactions (autoId e 0) ''userId'' = Some (Str d)"
    and "fieldOf db' CreditTransactions (autoId e 0) ''amount'' = Some (Num c)"
    and "fieldOf db' CreditTransactions (autoId e 0) ''type'' = Some (Str ''pickup_completed'')"
    and "fieldOf db' CreditTransactions (autoId e 0) ''referenceId'' = Some (Str p)"
    and "\<And>i. i \<noteq> autoId e 1 \<Longrightarrow> db' Notifications i = db Notifications i"
    and "fieldOf db' Notifications (autoId e 1) ''userId'' = Some (Str d)"
    and "fieldOf db' Notifications (autoId e 1) ''type'' = Some (Str ''credit_earned'')"
    and "fieldOf db' Notifications (autoId e 1) ''data''
           = Some (Obj [(''amount'', Num c), (''pickupId'', Str p)])"
    and "db' PickupItems = db PickupItems"
    and "db' Achievements = db Achievements"
    and "db' EwasteCategories = db EwasteCategories"
proof -
  have 1: "updateData (serverTime e) pickup
             [''status'' \<mapsto> Val (Str ''completed''),
              ''actualWeightKg'' \<mapsto> Val (Num w),
              ''actualCreditsAwarded'' \<mapsto> Val (Num c),
              ''completedAt'' \<mapsto> ServerTimestamp,
              ''updatedAt'' \<mapsto> ServerTimestamp]
           = pickup(''status'' \<mapsto> Str ''completed'', ''actualWeightKg'' \<mapsto> Num w,
                    ''actualCreditsAwarded'' \<mapsto> Num c,
                    ''completedAt'' \<mapsto> Timestamp (serverTime e),
                    ''updatedAt'' \<mapsto> Timestamp (serverTime e))"
    by (rule ext) (simp add: updateData_def)
  have 2: "updateData (serverTime e) profile
             [''greenCredits'' \<mapsto> Increment c,
              ''totalItemsRecycled'' \<mapsto> increment (pickup ''totalItems''),
              ''totalWeightKg'' \<mapsto> Increment w,
              ''co2SavedKg'' \<mapsto> Increment (mulDouble w 1.5),
              ''lastActivityAt'' \<mapsto> Val (Str (clientTime e)),
              ''updatedAt'' \<mapsto> ServerTimestamp]
           = profile(''greenCredits'' \<mapsto> incremented profile ''greenCredits'' c,
                     ''totalItemsRecycled'' \<mapsto>
                        incrementedBy profile ''totalItemsRecycled'' (pickup ''totalItems''),
                     ''totalWeightKg'' \<mapsto> incremented profile ''totalWeightKg'' w,
                     ''co2SavedKg'' \<mapsto> incremented profile ''co2SavedKg'' (mulDouble w 1.5),
                     ''lastActivityAt'' \<mapsto> Str (clientTime e),
                     ''updatedAt'' \<mapsto> Timestamp (serverTime e))"
    by (rule ext)
       (simp add: updateData_def resolve_Increment[where d=profile]
                  resolve_increment[where d=profile])
  note defs = db'_def completePickupAndAwardCredits_def getDoc_def commit_def setData_def
    fieldOf_def
  show "fst (completePickupAndAwardCredits p w c e db) = Inr ()"
    using assms(1-3) by (simp add: defs)
  show "db' Pickups =
           (db Pickups)(p \<mapsto> pickup(''status'' \<mapsto> Str ''completed'',
                                     ''actualWeightKg'' \<mapsto> Num w,
                                     ''actualCreditsAwarded'' \<mapsto> Num c,
                                     ''completedAt'' \<mapsto> Timestamp (serverTime e),
                                     ''updatedAt'' \<mapsto> Timestamp (serverTime e)))"
    using assms(1-3) by (simp add: defs 1)
  show "db' Profiles =
           (db Profiles)(d \<mapsto> profile
              (''greenCredits'' \<mapsto> incremented profile ''greenCredits'' c,
               ''totalItemsRecycled'' \<mapsto>
                  incrementedBy profile ''totalItemsRecycled'' (pickup ''totalItems''),
               ''totalWeightKg'' \<mapsto> incremented profile ''totalWeightKg'' w,
               ''co2SavedKg'' \<mapsto> incremented profile ''co2SavedKg'' (mulDouble w 1.5),
               ''lastActivityAt'' \<mapsto> Str (clientTime e),
               ''updatedAt'' \<mapsto> Timestamp (serverTime e)))"
    using assms(1-3) 2 by (simp add: defs)
  show "\<And>i. i \<noteq> autoId e 0 \<Longrightarrow> db' CreditTransactions i = db CreditTransactions i"
    using assms(1-3) by (simp add: defs)
  show "fieldOf db' CreditTransactions (autoId e 0) ''userId'' = Some (Str d)"
    using assms(1-3) by (simp add: defs)
  show "fieldOf db' CreditTransactions (autoId e 0) ''amount'' = Some (Num c)"
    using assms(1-3) by (simp add: defs)
  show "fieldOf db' CreditTransactions (autoId e 0) ''type'' = Some (Str ''pickup_completed'')"
    using assms(1-3) by (simp add: defs)
  show "fieldOf db' CreditTransactions (autoId e 0) ''referenceId'' = Some (Str p)"
    using assms(1-3) by (simp add: defs)
  show "\<And>i. i \<noteq> autoId e 1 \<Longrightarrow> db' Notifications i = db Notifications i"
    using assms(1-3) by (simp add: defs)
  show "fieldOf db' Notifications (autoId e 1) ''userId'' = Some (Str d)"
    using assms(1-3) by (simp add: defs)
  show "fieldOf db' Notifications (autoId e 1) ''type'' = Some (Str ''credit_earned'')"
    using assms(1-3) by (simp add: defs)
  show "fieldOf db' Notifications (autoId e 1) ''data''
           = Some (Obj [(''amount'', Num c), (''pickupId'', Str p)])"
    using assms(1-3) by (simp add: defs)
  show "db' PickupItems = db PickupItems"
    using assms(1-3) by (simp add: defs)
  show "db' Achievements = db Achievements"
    using assms(1-3) by (simp add: defs)
  show "db' EwasteCategories = db EwasteCategories"
    using assms(1-3) by (simp add: defs)
qed

text \<open>
  C2. A call of \<open>completePickupAndAwardCredits\<close> either fails and leaves the store as
  it was, or succeeds and then has written exactly four documents in one batch: the
  request, now \<open>completed\<close> with \<open>actualWeightKg = w\<close> and \<open>actualCreditsAwarded = c\<close>
  (and the two time stamps); the donor's profile, with \<open>greenCredits\<close> increased by
  \<open>c\<close>, \<open>totalItemsRecycled\<close> by the request's \<open>totalItems\<close>, \<open>totalWeightKg\<close> by \<open>w\<close>
  and \<open>co2SavedKg\<close> by \<open>w \<times> 1.5\<close>; one credit transaction under the generated id, with
  \<open>amount = c\<close>, referring to the request; and one notification under the generated id,
  addressed to the donor. Every other document of every collection is unchanged. A
  counter that is increased holds the number it held, or 0, plus the amount
  (\<open>incremented\<close>); it holds \<open>NaN\<close> if it held \<open>NaN\<close> and, \<open>totalItemsRecycled\<close>, if the
  request holds no number as \<open>totalItems\<close>. \<open>w \<times> 1.5\<close> is the product of doubles.
\<close>

theorem completePickup_four_records:
  assumes run: "completePickupAndAwardCredits pickupId w c e db = (r, db')"
  shows "(\<forall>err. r = Inl err \<longrightarrow> db' = db) \<and>
    (r = Inr () \<longrightarrow>
      (\<exists>pickup donorId profile tx notif.
          db Pickups pickupId = Some pickup \<and> pickup ''donorId'' = Some (Str donorId)
        \<and> db Profiles donorId = Some profile
        \<and> db' Pickups =
            (db Pickups)(pickupId \<mapsto> pickup
               (''status'' \<mapsto> Str ''completed'',
                ''actualWeightKg'' \<mapsto> Num w,
                ''actualCreditsAwarded'' \<mapsto> Num c,
                ''completedAt'' \<mapsto> Timestamp (serverTime e),
                ''updatedAt'' \<mapsto> Timestamp (serverTime e)))
        \<and> db' Profiles =
            (db Profiles)(donorId \<mapsto> profile
               (''greenCredits'' \<mapsto> incremented profile ''greenCredits'' c,
                ''totalItemsRecycled'' \<mapsto>
                   incrementedBy profile ''totalItemsRecycled'' (pickup ''totalItems''),
                ''totalWeightKg'' \<mapsto> incremented profile ''totalWeightKg'' w,
                ''co2SavedKg'' \<mapsto> incremented profile ''co2SavedKg'' (mulDouble w 1.5),
                ''lastActivityAt'' \<mapsto> Str (clientTime e),
                ''updatedAt'' \<mapsto> Timestamp (serverTime e)))
        \<and> db' CreditTransactions = (db CreditTransactions)(autoId e 0 \<mapsto> tx)
        \<and> tx ''amount'' = Some (Num c) \<and> tx ''referenceId'' = Some (Str pickupId)
        \<and> tx ''userId'' = Some (Str donorId) \<and> tx ''type'' = Some (Str ''pickup_completed'')
        \<and> db' Notifications = (db Notifications)(autoId e 1 \<mapsto> notif)
        \<and> notif ''userId'' = Some (Str donorId) \<and> notif ''type'' = Some (Str ''credit_earned'')
        \<and> db' PickupItems = db PickupItems \<and> db' Achievements = db Achievements
        \<and> db' EwasteCategories = db EwasteCategories))"
proof (intro conjI allI impI)
  fix err assume "r = Inl err"
  with run show "db' = db" using complete_fail_unchanged[of pickupId w c e db err] by simp
next
  assume ok: "r = Inr ()"
  with run have "fst (completePickupAndAwardCredits pickupId w c e db) = Inr ()" by simp
  then obtain pickup d where
    pk: "db Pickups pickupId = Some pickup" and dn: "pickup ''donorId'' = Some (Str d)"
    and "db Profiles d \<noteq> None"
    unfolding complete_success_iff by blast
  then obtain profile where pr: "db Profiles d = Some profile" by blast
  have db': "db' = snd (completePickupAndAwardCredits pickupId w c e db)" using run by simp
  note s = complete_success[where w=w and c=c and e=e, OF pk dn pr, folded db']
  from s(5) obtain tx where tx: "db' CreditTransactions (autoId e 0) = Some tx"
    by (auto simp: fieldOf_def split: option.splits)
  from s(10) obtain notif where nt: "db' Notifications (autoId e 1) = Some notif"
    by (auto simp: fieldOf_def split: option.splits)
  have ct: "db' CreditTransactions = (db CreditTransactions)(autoId e 0 \<mapsto> tx)"
    using s(4) tx by (auto simp: fun_eq_iff)
  have nf: "db' Notifications = (db Notifications)(autoId e 1 \<mapsto> notif)"
    using s(9) nt by (auto simp: fun_eq_iff)
  have txf: "tx ''amount'' = Some (Num c)" "tx ''referenceId'' = Some (Str pickupId)"
    "tx ''userId'' = Some (Str d)" "tx ''type'' = Some (Str ''pickup_completed'')"
    using s(5-8) tx by (simp_all add: fieldOf_def)
  have ntf: "notif ''userId'' = Some (Str d)" "notif ''type'' = Some (Str ''credit_earned'')"
    using s(10,11) nt by (simp_all add: fieldOf_def)
  show "\<exists>pickup donorId profile tx notif.
          db Pickups pickupId = Some pickup \<and> pickup ''donorId'' = Some (Str donorId)
        \<and> db Profiles donorId = Some profile
        \<and> db' Pickups =
            (db Pickups)(pickupId \<mapsto> pickup
               (''status'' \<mapsto> Str ''completed'',
                ''actualWeightKg'' \<mapsto> Num w,
                ''actualCreditsAwarded'' \<mapsto> Num c,
                ''completedAt'' \<mapsto> Timestamp (serverTime e),
                ''updatedAt'' \<mapsto> Timestamp (serverTime e)))
        \<and> db' Profiles =
            (db Profiles)(donorId \<mapsto> profile
               (''greenCredits'' \<mapsto> incremented profile ''greenCredits'' c,
                ''totalItemsRecycled'' \<mapsto>
                   incrementedBy profile ''totalItemsRecycled'' (pickup ''totalItems''),
                ''totalWeightKg'' \<mapsto> incremented profile ''totalWeightKg'' w,
                ''co2SavedKg'' \<mapsto> incremented profile ''co2SavedKg'' (mulDouble w 1.5),
                ''lastActivityAt'' \<mapsto> Str (clientTime e),
                ''updatedAt'' \<mapsto> Timestamp (serverTime e)))
        \<and> db' CreditTransactions = (db CreditTransactions)(autoId e 0 \<mapsto> tx)
        \<and> tx ''amount'' = Some (Num c) \<and> tx ''referenceId'' = Some (Str pickupId)
        \<and> tx ''userId'' = Some (Str donorId) \<and> tx ''type'' = Some (Str ''pickup_completed'')
        \<and> db' Notifications = (db Notifications)(autoId e 1 \<mapsto> notif)
        \<and> notif ''userId'' = Some (Str donorId) \<and> notif ''type'' = Some (Str ''credit_earned'')
        \<and> db' PickupItems = db PickupItems \<and> db' Achievements = db Achievements
        \<and> db' EwasteCategories = db EwasteCategories"
    apply (rule exI[of _ pickup], rule exI[of _ d], rule exI[of _ profile],
           rule exI[of _ tx], rule exI[of _ notif])
    using pk dn pr s(2,3) ct nf txf ntf s(13-15) by (intro conjI)
qed

lemma dbWith_simps:
  "dbWith st Pickups ''p1'' = Some (pickupDoc st)"
  "dbWith st Profiles ''u1'' = Some profileDoc"
  "dbWith st CreditTransactions i = None"
  "dbWith st Notifications i = None"
  "dbWith st Pickups ''p9'' = None"
  by (simp_all add: dbWith_def)

lemma pickupDoc_simps:
  "pickupDoc st ''donorId'' = Some (Str ''u1'')"
  "pickupDoc st ''totalItems'' = Some (Num 2)"
  "pickupDoc st ''status'' = Some (Str st)"
  by (simp_all add: pickupDoc_def)

lemma profileDoc_simps:
  "numField profileDoc ''greenCredits'' = 100"
  "numField profileDoc ''totalItemsRecycled'' = 5"
  "numField profileDoc ''totalWeightKg'' = 10"
  "numField profileDoc ''co2SavedKg'' = 15"
  "profileDoc ''badgeLevel'' = Some (Str ''seedling'')"
  "profileDoc ''greenCredits'' = Some (Num 100)"
  by (simp_all add: profileDoc_def numField_def)

lemma profileDoc_incremented:
  "incremented profileDoc ''greenCredits'' n = Num (100 + n)"
  "incremented profileDoc ''totalItemsRecycled'' n = Num (5 + n)"
  "incremented profileDoc ''totalWeightKg'' n = Num (10 + n)"
  "incremented profileDoc ''co2SavedKg'' n = Num (15 + n)"
  by (simp_all add: profileDoc_def incremented_def numField_def)

text \<open>Products of doubles that the examples need.\<close>

lemma mulDouble_examples:
  "mulDouble 12 1.5 = 18"
  "mulDouble 12 (3 / 2) = 18"
  "mulDouble (- 3) 1.5 = - 9 / 2"
  "mulDouble (- 3) (3 / 2) = - 9 / 2"
  "mulDouble 5 1.5 = 15 / 2"
  by code_simp+

lemma env0_simps:
  "autoId env0 0 = ''id0''" "autoId env0 1 = ''id1''" "autoId env0 (Suc 0) = ''id1''"
  "serverTime env0 = 1000"
  by (simp_all add: env0_def)

theorem completePickup_four_records_witness:
  "fst (completePickupAndAwardCredits ''p1'' 12 240 env0 (dbWith ''collected'')) = Inr ()
   \<and> fieldOf (snd (completePickupAndAwardCredits ''p1'' 12 240 env0 (dbWith ''collected'')))
        Pickups ''p1'' ''status'' = Some (Str ''completed'')
   \<and> fieldOf (snd (completePickupAndAwardCredits ''p1'' 12 240 env0 (dbWith ''collected'')))
        Pickups ''p1'' ''actualWeightKg'' = Some (Num 12)
   \<and> fieldOf (snd (completePickupAndAwardCredits ''p1'' 12 240 env0 (dbWith ''collected'')))
        Pickups ''p1'' ''actualCreditsAwarded'' = Some (Num 240)
   \<and> fieldOf (snd (completePickupAndAwardCredits ''p1'' 12 240 env0 (dbWith ''collected'')))
        Profiles ''u1'' ''greenCredits'' = Some (Num 340)
   \<and> fieldOf (snd (completePickupAndAwardCredits ''p1'' 12 240 env0 (dbWith ''collected'')))
        Profiles ''u1'' ''totalItemsRecycled'' = Some (Num 7)
   \<and> fieldOf (snd (completePickupAndAwardCredits ''p1'' 12 240 env0 (dbWith ''collected'')))
        Profiles ''u1'' ''totalWeightKg'' = Some (Num 22)
   \<and> fieldOf (snd (completePickupAndAwardCredits ''p1'' 12 240 env0 (dbWith ''collected'')))
        Profiles ''u1'' ''co2SavedKg'' = Some (Num 33)
   \<and> dbWith ''collected'' CreditTransactions ''id0'' = None
   \<and> fieldOf (snd (completePickupAndAwardCredits ''p1'' 12 240 env0 (dbWith ''collected'')))
        CreditTransactions ''id0'' ''amount'' = Some (Num 240)
   \<and> fieldOf (snd (completePickupAndAwardCredits ''p1'' 12 240 env0 (dbWith ''collected'')))
        CreditTransactions ''id0'' ''referenceId'' = Some (Str ''p1'')
   \<and> dbWith ''collected'' Notifications ''id1'' = None
   \<and> fieldOf (snd (completePickupAndAwardCredits ''p1'' 12 240 env0 (dbWith ''collected'')))
        Notifications ''id1'' ''userId'' = Some (Str ''u1'')"
proof -
  define r where "r = fst (completePickupAndAwardCredits ''p1'' 12 240 env0 (dbWith ''collected''))"
  define db' where
    "db' = snd (completePickupAndAwardCredits ''p1'' 12 240 env0 (dbWith ''collected''))"
  have run: "completePickupAndAwardCredits ''p1'' 12 240 env0 (dbWith ''collected'') = (r, db')"
    by (simp add: r_def db'_def)
  have ok: "r = Inr ()"
    unfolding r_def complete_success_iff by (simp add: dbWith_simps pickupDoc_simps)
  from completePickup_four_records[OF run] ok
  obtain pickup donorId profile tx notif where
    f: "dbWith ''collected'' Pickups ''p1'' = Some pickup"
       "pickup ''donorId'' = Some (Str donorId)"
       "dbWith ''collected'' Profiles donorId = Some profile"
       "db' Pickups =
            (dbWith ''collected'' Pickups)(''p1'' \<mapsto> pickup
               (''status'' \<mapsto> Str ''completed'',
                ''actualWeightKg'' \<mapsto> Num 12,
                ''actualCreditsAwarded'' \<mapsto> Num 240,
                ''completedAt'' \<mapsto> Timestamp (serverTime env0),
                ''updatedAt'' \<mapsto> Timestamp (serverTime env0)))"
       "db' Profiles =
            (dbWith ''collected'' Profiles)(donorId \<mapsto> profile
               (''greenCredits'' \<mapsto> incremented profile ''greenCredits'' 240,
                ''totalItemsRecycled'' \<mapsto>
                   incrementedBy profile ''totalItemsRecycled'' (pickup ''totalItems''),
                ''totalWeightKg'' \<mapsto> incremented profile ''totalWeightKg'' 12,
                ''co2SavedKg'' \<mapsto> incremented profile ''co2SavedKg'' (mulDouble 12 1.5),
                ''lastActivityAt'' \<mapsto> Str (clientTime env0),
                ''updatedAt'' \<mapsto> Timestamp (serverTime env0)))"
       "db' CreditTransactions = (dbWith ''collected'' CreditTransactions)(autoId env0 0 \<mapsto> tx)"
       "tx ''amount'' = Some (Num 240)" "tx ''referenceId'' = Some (Str ''p1'')"
       "db' Notifications = (dbWith ''collected'' Notifications)(autoId env0 1 \<mapsto> notif)"
       "notif ''userId'' = Some (Str donorId)"
    by blast
  have pickup: "pickup = pickupDoc ''collected''" using f(1) by (simp add: dbWith_simps)
  have donor: "donorId = ''u1''" using f(2) by (simp add: pickup pickupDoc_simps)
  have profile: "profile = profileDoc" using f(3) by (simp add: donor dbWith_simps)
  show ?thesis
    unfolding r_def[symmetric] db'_def[symmetric]
    using ok f(4-10) mulDouble_examples(1,2)
    by (simp add: fieldOf_def pickup donor profile profileDoc_incremented incrementedBy_def
                  pickupDoc_simps env0_simps dbWith_simps)
qed

text \<open>
  A request that lacks \<open>totalItems\<close> is completed as well: the count of recycled items
  becomes \<open>NaN\<close>, and the other counters are increased.
\<close>

lemma complete_without_totalItems:
  "fst (completePickupAndAwardCredits ''p1'' 12 240 env0 dbNoTotal) = Inr ()
   \<and> fieldOf (snd (completePickupAndAwardCredits ''p1'' 12 240 env0 dbNoTotal))
        Profiles ''u1'' ''totalItemsRecycled'' = Some NaN
   \<and> fieldOf (snd (completePickupAndAwardCredits ''p1'' 12 240 env0 dbNoTotal))
        Profiles ''u1'' ''greenCredits'' = Some (Num 340)"
proof -
  have pk: "dbNoTotal Pickups ''p1''
              = Some [''donorId'' \<mapsto> Str ''u1'', ''status'' \<mapsto> Str ''collected'']"
    and pr: "dbNoTotal Profiles ''u1'' = Some profileDoc"
    by (simp_all add: dbNoTotal_def)
  have dn: "[''donorId'' \<mapsto> Str ''u1'', ''status'' \<mapsto> Str ''collected''] ''donorId''
              = Some (Str ''u1'')"
    by simp
  show ?thesis
    using complete_success(1,3)[where w=12 and c=240 and e=env0, OF pk dn pr]
    by (simp add: fieldOf_def profileDoc_incremented incrementedBy_def)
qed

section \<open>No status is checked when a pickup is completed\<close>

lemma env1_simps:
  "autoId env1 0 = ''id2''" "autoId env1 1 = ''id3''" "autoId env1 (Suc 0) = ''id3''"
  "serverTime env1 = 2000"
  by (simp_all add: env1_def)

lemma completedDoc_simps:
  "completedDoc ''donorId'' = Some (Str ''u1'')"
  "completedDoc ''totalItems'' = Some (Num 2)"
  "completedDoc ''status'' = Some (Str ''completed'')"
  by (simp_all add: completedDoc_def pickupDoc_simps)

lemma dbCompleted_simps:
  "dbCompleted Pickups ''p1'' = Some completedDoc"
  "dbCompleted Profiles ''u1'' =
     Some (profileDoc
             (''greenCredits'' \<mapsto> Num 340, ''totalItemsRecycled'' \<mapsto> Num 7,
              ''totalWeightKg'' \<mapsto> Num 22, ''co2SavedKg'' \<mapsto> Num 33,
              ''lastActivityAt'' \<mapsto> Str (clientTime env0),
              ''updatedAt'' \<mapsto> Timestamp 1000))"
  "dbCompleted CreditTransactions ''id2'' = None"
  "dbCompleted Pickups ''p9'' = None"
  using complete_success(2,3,4)
          [where w=12 and c=240 and e=env0,
           OF dbWith_simps(1)[of "''collected''"] pickupDoc_simps(1) dbWith_simps(2)]
        mulDouble_examples(1,2)
  by (simp_all add: dbCompleted_def completedDoc_def profileDoc_incremented incrementedBy_def
                    pickupDoc_simps env0_simps dbWith_simps)

text \<open>
  C1, as stated, fails: the request \<open>p1\<close> is completed; completing it a second time
  succeeds, adds the credit transaction \<open>id2\<close> and raises the balance from 340 to 580.
\<close>

theorem completePickup_replay_counterexample:
  "fieldOf dbCompleted Pickups ''p1'' ''status'' = Some (Str ''completed'')
   \<and> fieldOf dbCompleted Profiles ''u1'' ''greenCredits'' = Some (Num 340)
   \<and> dbCompleted CreditTransactions ''id2'' = None
   \<and> fst (completePickupAndAwardCredits ''p1'' 12 240 env1 dbCompleted) = Inr ()
   \<and> fieldOf (snd (completePickupAndAwardCredits ''p1'' 12 240 env1 dbCompleted))
        CreditTransactions ''id2'' ''amount'' = Some (Num 240)
   \<and> fieldOf (snd (completePickupAndAwardCredits ''p1'' 12 240 env1 dbCompleted))
        Profiles ''u1'' ''greenCredits'' = Some (Num 580)"
proof -
  note s = complete_success(1,3,6)
             [where w=12 and c=240 and e=env1,
              OF dbCompleted_simps(1) completedDoc_simps(1) dbCompleted_simps(2)]
  show ?thesis
    using s
    by (simp add: fieldOf_def dbCompleted_simps completedDoc_simps incremented_def numField_def
                  env1_simps)
qed

text \<open>
  C1, amended. \<open>completePickupAndAwardCredits\<close> does not look at the status of the
  request and has no failure for a wrong status. It succeeds exactly when the request
  exists and names, as its donor, a profile that exists; the outcome is the same whatever
  the status field holds. On a request that is already \<open>completed\<close> it succeeds
  again, writes another credit transaction that refers to the request and adds the
  amount to the balance again. When it fails, the store is unchanged.
\<close>

theorem completePickup_checks_no_status:
  "(fst (completePickupAndAwardCredits p w c e db) = Inr () \<longleftrightarrow>
      (\<exists>pickup d. db Pickups p = Some pickup \<and> pickup ''donorId'' = Some (Str d)
          \<and> db Profiles d \<noteq> None))
   \<and> (\<forall>err. fst (completePickupAndAwardCredits p w c e db) = Inl err \<longrightarrow>
          snd (completePickupAndAwardCredits p w c e db) = db)
   \<and> (\<forall>pickup s. db Pickups p = Some pickup \<longrightarrow>
          fst (completePickupAndAwardCredits p w c e
                 (db(Pickups := (db Pickups)(p \<mapsto> pickup(''status'' \<mapsto> Str s)))))
            = fst (completePickupAndAwardCredits p w c e db))
   \<and> (\<forall>pickup d profile.
          db Pickups p = Some pickup \<and> pickup ''status'' = Some (Str ''completed'')
          \<and> pickup ''donorId'' = Some (Str d) \<and> db Profiles d = Some profile \<longrightarrow>
            fst (completePickupAndAwardCredits p w c e db) = Inr ()
          \<and> fieldOf (snd (completePickupAndAwardCredits p w c e db))
               CreditTransactions (autoId e 0) ''referenceId'' = Some (Str p)
          \<and> fieldOf (snd (completePickupAndAwardCredits p w c e db))
               CreditTransactions (autoId e 0) ''amount'' = Some (Num c)
          \<and> fieldOf (snd (completePickupAndAwardCredits p w c e db))
               Profiles d ''greenCredits'' = Some (incremented profile ''greenCredits'' c))"
proof -
  have A: "fst (completePickupAndAwardCredits p w c e db) = Inr () \<longleftrightarrow>
      (\<exists>pickup d. db Pickups p = Some pickup \<and> pickup ''donorId'' = Some (Str d)
          \<and> db Profiles d \<noteq> None)"
    by (rule complete_success_iff)
  have B: "\<forall>err. fst (completePickupAndAwardCredits p w c e db) = Inl err \<longrightarrow>
          snd (completePickupAndAwardCredits p w c e db) = db"
    by (intro allI impI) (rule complete_fail_unchanged)
  have C: "\<forall>pickup s. db Pickups p = Some pickup \<longrightarrow>
          fst (completePickupAndAwardCredits p w c e
                 (db(Pickups := (db Pickups)(p \<mapsto> pickup(''status'' \<mapsto> Str s)))))
            = fst (completePickupAndAwardCredits p w c e db)"
  proof (intro allI impI)
    fix pickup s assume pk: "db Pickups p = Some pickup"
    let ?db = "db(Pickups := (db Pickups)(p \<mapsto> pickup(''status'' \<mapsto> Str s)))"
    have "fst (completePickupAndAwardCredits p w c e ?db) = Inr ()
            \<longleftrightarrow> fst (completePickupAndAwardCredits p w c e db) = Inr ()"
      unfolding complete_success_iff using pk by simp
    moreover have "fst (completePickupAndAwardCredits p w c e ?db) = Inl x
            \<longleftrightarrow> fst (completePickupAndAwardCredits p w c e db) = Inl x" for x
      using pk
      by (auto simp: completePickupAndAwardCredits_def getDoc_def commit_def
               split: option.splits)
    ultimately show "fst (completePickupAndAwardCredits p w c e ?db)
                       = fst (completePickupAndAwardCredits p w c e db)"
      by (cases "fst (completePickupAndAwardCredits p w c e db)") auto
  qed
  have D: "\<forall>pickup d profile.
          db Pickups p = Some pickup \<and> pickup ''status'' = Some (Str ''completed'')
          \<and> pickup ''donorId'' = Some (Str d) \<and> db Profiles d = Some profile \<longrightarrow>
            fst (completePickupAndAwardCredits p w c e db) = Inr ()
          \<and> fieldOf (snd (completePickupAndAwardCredits p w c e db))
               CreditTransactions (autoId e 0) ''referenceId'' = Some (Str p)
          \<and> fieldOf (snd (completePickupAndAwardCredits p w c e db))
               CreditTransactions (autoId e 0) ''amount'' = Some (Num c)
          \<and> fieldOf (snd (completePickupAndAwardCredits p w c e db))
               Profiles d ''greenCredits'' = Some (incremented profile ''greenCredits'' c)"
  proof (intro allI impI)
    fix pickup d profile
    assume a: "db Pickups p = Some pickup \<and> pickup ''status'' = Some (Str ''completed'')
            \<and> pickup ''donorId'' = Some (Str d) \<and> db Profiles d = Some profile"
    then have pk: "db Pickups p = Some pickup" and dn: "pickup ''donorId'' = Some (Str d)"
      and pr: "db Profiles d = Some profile"
      by simp_all
    note s = complete_success[where w=w and c=c and e=e, OF pk dn pr]
    show "fst (completePickupAndAwardCredits p w c e db) = Inr ()
            \<and> fieldOf (snd (completePickupAndAwardCredits p w c e db))
                 CreditTransactions (autoId e 0) ''referenceId'' = Some (Str p)
            \<and> fieldOf (snd (completePickupAndAwardCredits p w c e db))
                 CreditTransactions (autoId e 0) ''amount'' = Some (Num c)
            \<and> fieldOf (snd (completePickupAndAwardCredits p w c e db))
                 Profiles d ''greenCredits'' = Some (incremented profile ''greenCredits'' c)"
      using s(1,3,6,8) by (simp add: fieldOf_def)
  qed
  show ?thesis by (rule conjI[OF A conjI[OF B conjI[OF C D]]])
qed

text \<open>
  The completed request \<open>p1\<close> is completed again; put back to \<open>pending\<close> it is
  completed as well; a request that lacks \<open>totalItems\<close> is completed; and no request
  \<open>p9\<close> exists.
\<close>

theorem completePickup_checks_no_status_witness:
  "fst (completePickupAndAwardCredits ''p1'' 12 240 env1 dbCompleted) = Inr ()
   \<and> fieldOf (snd (completePickupAndAwardCredits ''p1'' 12 240 env1 dbCompleted))
        CreditTransactions ''id2'' ''referenceId'' = Some (Str ''p1'')
   \<and> fieldOf (snd (completePickupAndAwardCredits ''p1'' 12 240 env1 dbCompleted))
        Profiles ''u1'' ''greenCredits'' = Some (Num 580)
   \<and> fst (completePickupAndAwardCredits ''p1'' 12 240 env1
             (dbCompleted(Pickups := (dbCompleted Pickups)
                (''p1'' \<mapsto> completedDoc(''status'' \<mapsto> Str ''pending''))))) = Inr ()
   \<and> fst (completePickupAndAwardCredits ''p1'' 12 240 env0 dbNoTotal) = Inr ()
   \<and> fst (completePickupAndAwardCredits ''p9'' 12 240 env1 dbCompleted) = Inl PickupNotFound
   \<and> snd (completePickupAndAwardCredits ''p9'' 12 240 env1 dbCompleted) = dbCompleted"
proof -
  note t1 = completePickup_checks_no_status[of "''p1''" 12 240 env1 dbCompleted]
  note t9 = completePickup_checks_no_status[of "''p9''" 12 240 env1 dbCompleted]
  note tn = completePickup_checks_no_status[of "''p1''" 12 240 env0 dbNoTotal]
  have h: "dbCompleted Pickups ''p1'' = Some completedDoc
          \<and> completedDoc ''status'' = Some (Str ''completed'')
          \<and> completedDoc ''donorId'' = Some (Str ''u1'')
          \<and> dbCompleted Profiles ''u1'' =
               Some (profileDoc
                 (''greenCredits'' \<mapsto> Num 340, ''totalItemsRecycled'' \<mapsto> Num 7,
                  ''totalWeightKg'' \<mapsto> Num 22, ''co2SavedKg'' \<mapsto> Num 33,
                  ''lastActivityAt'' \<mapsto> Str (clientTime env0),
                  ''updatedAt'' \<mapsto> Timestamp 1000))"
    by (simp add: dbCompleted_simps completedDoc_simps)
  from t1 h have 1:
    "fst (completePickupAndAwardCredits ''p1'' 12 240 env1 dbCompleted) = Inr ()
     \<and> fieldOf (snd (completePickupAndAwardCredits ''p1'' 12 240 env1 dbCompleted))
          CreditTransactions (autoId env1 0) ''referenceId'' = Some (Str ''p1'')
     \<and> fieldOf (snd (completePickupAndAwardCredits ''p1'' 12 240 env1 dbCompleted))
          Profiles ''u1'' ''greenCredits''
        = Some (incremented (profileDoc
                 (''greenCredits'' \<mapsto> Num 340, ''totalItemsRecycled'' \<mapsto> Num 7,
                  ''totalWeightKg'' \<mapsto> Num 22, ''co2SavedKg'' \<mapsto> Num 33,
                  ''lastActivityAt'' \<mapsto> Str (clientTime env0),
                  ''updatedAt'' \<mapsto> Timestamp 1000)) ''greenCredits'' 240)"
    by blast
  from t1 dbCompleted_simps(1) have 2:
    "fst (completePickupAndAwardCredits ''p1'' 12 240 env1
             (dbCompleted(Pickups := (dbCompleted Pickups)
                (''p1'' \<mapsto> completedDoc(''status'' \<mapsto> Str ''pending'')))))
      = fst (completePickupAndAwardCredits ''p1'' 12 240 env1 dbCompleted)"
    by blast
  have 3: "fst (completePickupAndAwardCredits ''p9'' 12 240 env1 dbCompleted)
             = Inl PickupNotFound"
    using complete_no_pickup[of dbCompleted "''p9''" 12 240 env1] dbCompleted_simps(4) by simp
  from t9 3 have 4: "snd (completePickupAndAwardCredits ''p9'' 12 240 env1 dbCompleted)
             = dbCompleted"
    by blast
  have "\<exists>pickup d. dbNoTotal Pickups ''p1'' = Some pickup
          \<and> pickup ''donorId'' = Some (Str d) \<and> dbNoTotal Profiles d \<noteq> None"
    by (simp add: dbNoTotal_def)
  with tn have 5: "fst (completePickupAndAwardCredits ''p1'' 12 240 env0 dbNoTotal) = Inr ()"
    by blast
  show ?thesis using 1 2 3 4 5 by (simp add: env1_simps incremented_def numField_def)
qed

section \<open>No sign is checked when a pickup is completed\<close>

text \<open>
  C9, as stated, fails: completing the collected request \<open>p1\<close> with weight \<open>-3\<close> and
  amount \<open>-50\<close> is not rejected; the request becomes \<open>completed\<close> with these values,
  the balance goes from 100 down to 50 and the recycled weight from 10 down to 7.
\<close>

theorem completePickup_negative_counterexample:
  "fst (completePickupAndAwardCredits ''p1'' (-3) (-50) env0 (dbWith ''collected'')) = Inr ()
   \<and> fieldOf (dbWith ''collected'') Profiles ''u1'' ''greenCredits'' = Some (Num 100)
   \<and> fieldOf (snd (completePickupAndAwardCredits ''p1'' (-3) (-50) env0 (dbWith ''collected'')))
        Profiles ''u1'' ''greenCredits'' = Some (Num 50)
   \<and> fieldOf (snd (completePickupAndAwardCredits ''p1'' (-3) (-50) env0 (dbWith ''collected'')))
        Profiles ''u1'' ''totalWeightKg'' = Some (Num 7)
   \<and> fieldOf (snd (completePickupAndAwardCredits ''p1'' (-3) (-50) env0 (dbWith ''collected'')))
        Pickups ''p1'' ''actualWeightKg'' = Some (Num (-3))
   \<and> fieldOf (snd (completePickupAndAwardCredits ''p1'' (-3) (-50) env0 (dbWith ''collected'')))
        CreditTransactions ''id0'' ''amount'' = Some (Num (-50))"
proof -
  note s = complete_success(1,2,3,6)
             [where w="-3" and c="-50" and e=env0,
              OF dbWith_simps(1)[of "''collected''"] pickupDoc_simps(1) dbWith_simps(2)]
  show ?thesis
    using s
    by (simp add: fieldOf_def dbWith_simps profileDoc_simps profileDoc_incremented env0_simps)
qed

text \<open>
  C9, amended. \<open>completePickupAndAwardCredits\<close> does not check the sign of the weight
  or of the amount. Whether a call succeeds does not depend on them; a call with a
  negative weight or a negative amount, on a request that exists and whose donor has a
  profile, succeeds and commits the same batch as any other call: the request records
  the weight and the amount as given, and the profile's counters are increased by them,
  that is, lowered. When the call fails, the store is unchanged.
\<close>

theorem completePickup_checks_no_sign:
  assumes neg: "w < 0 \<or> c < 0"
  shows "(fst (completePickupAndAwardCredits p w c e db) = Inr ()
            \<longleftrightarrow> fst (completePickupAndAwardCredits p 0 0 e db) = Inr ())
   \<and> (\<forall>err. fst (completePickupAndAwardCredits p w c e db) = Inl err \<longrightarrow>
          snd (completePickupAndAwardCredits p w c e db) = db)
   \<and> (\<forall>pickup d profile.
          db Pickups p = Some pickup \<and> pickup ''donorId'' = Some (Str d)
          \<and> db Profiles d = Some profile \<longrightarrow>
            fst (completePickupAndAwardCredits p w c e db) = Inr ()
          \<and> fieldOf (snd (completePickupAndAwardCredits p w c e db))
               Pickups p ''status'' = Some (Str ''completed'')
          \<and> fieldOf (snd (completePickupAndAwardCredits p w c e db))
               Pickups p ''actualWeightKg'' = Some (Num w)
          \<and> fieldOf (snd (completePickupAndAwardCredits p w c e db))
               Pickups p ''actualCreditsAwarded'' = Some (Num c)
          \<and> fieldOf (snd (completePickupAndAwardCredits p w c e db))
               Profiles d ''greenCredits'' = Some (incremented profile ''greenCredits'' c)
          \<and> fieldOf (snd (completePickupAndAwardCredits p w c e db))
               Profiles d ''totalWeightKg'' = Some (incremented profile ''totalWeightKg'' w)
          \<and> fieldOf (snd (completePickupAndAwardCredits p w c e db))
               Profiles d ''co2SavedKg''
                 = Some (incremented profile ''co2SavedKg'' (mulDouble w 1.5))
          \<and> fieldOf (snd (completePickupAndAwardCredits p w c e db))
               CreditTransactions (autoId e 0) ''amount'' = Some (Num c))"
proof -
  have A: "fst (completePickupAndAwardCredits p w c e db) = Inr ()
            \<longleftrightarrow> fst (completePickupAndAwardCredits p 0 0 e db) = Inr ()"
    unfolding complete_success_iff ..
  have B: "\<forall>err. fst (completePickupAndAwardCredits p w c e db) = Inl err \<longrightarrow>
          snd (completePickupAndAwardCredits p w c e db) = db"
    by (intro allI impI) (rule complete_fail_unchanged)
  have C: "\<forall>pickup d profile.
          db Pickups p = Some pickup \<and> pickup ''donorId'' = Some (Str d)
          \<and> db Profiles d = Some profile \<longrightarrow>
            fst (completePickupAndAwardCredits p w c e db) = Inr ()
          \<and> fieldOf (snd (completePickupAndAwardCredits p w c e db))
               Pickups p ''status'' = Some (Str ''completed'')
          \<and> fieldOf (snd (completePickupAndAwardCredits p w c e db))
               Pickups p ''actualWeightKg'' = Some (Num w)
          \<and> fieldOf (snd (completePickupAndAwardCredits p w c e db))
               Pickups p ''actualCreditsAwarded'' = Some (Num c)
          \<and> fieldOf (snd (completePickupAndAwardCredits p w c e db))
               Profiles d ''greenCredits'' = Some (incremented profile ''greenCredits'' c)
          \<and> fieldOf (snd (completePickupAndAwardCredits p w c e db))
               Profiles d ''totalWeightKg'' = Some (incremented profile ''totalWeightKg'' w)
          \<and> fieldOf (snd (completePickupAndAwardCredits p w c e db))
               Profiles d ''co2SavedKg''
                 = Some (incremented profile ''co2SavedKg'' (mulDouble w 1.5))
          \<and> fieldOf (snd (completePickupAndAwardCredits p w c e db))
               CreditTransactions (autoId e 0) ''amount'' = Some (Num c)"
  proof (intro allI impI)
    fix pickup d profile
    assume "db Pickups p = Some pickup \<and> pickup ''donorId'' = Some (Str d)
          \<and> db Profiles d = Some profile"
    then have pk: "db Pickups p = Some pickup" and dn: "pickup ''donorId'' = Some (Str d)"
      and pr: "db Profiles d = Some profile"
      by simp_all
    note s = complete_success[where w=w and c=c and e=e, OF pk dn pr]
    show "fst (completePickupAndAwardCredits p w c e db) = Inr ()
          \<and> fieldOf (snd (completePickupAndAwardCredits p w c e db))
               Pickups p ''status'' = Some (Str ''completed'')
          \<and> fieldOf (snd (completePickupAndAwardCredits p w c e db))
               Pickups p ''actualWeightKg'' = Some (Num w)
          \<and> fieldOf (snd (completePickupAndAwardCredits p w c e db))
               Pickups p ''actualCreditsAwarded'' = Some (Num c)
          \<and> fieldOf (snd (completePickupAndAwardCredits p w c e db))
               Profiles d ''greenCredits'' = Some (incremented profile ''greenCredits'' c)
          \<and> fieldOf (snd (completePickupAndAwardCredits p w c e db))
               Profiles d ''totalWeightKg'' = Some (incremented profile ''totalWeightKg'' w)
          \<and> fieldOf (snd (completePickupAndAwardCredits p w c e db))
               Profiles d ''co2SavedKg''
                 = Some (incremented profile ''co2SavedKg'' (mulDouble w 1.5))
          \<and> fieldOf (snd (completePickupAndAwardCredits p w c e db))
               CreditTransactions (autoId e 0) ''amount'' = Some (Num c)"
      using s(1,2,3,6) by (simp add: fieldOf_def)
  qed
  show ?thesis by (rule conjI[OF A conjI[OF B C]])
qed

theorem completePickup_checks_no_sign_witness:
  "(- 3 < (0::rat) \<or> - 50 < (0::rat))
   \<and> fst (completePickupAndAwardCredits ''p1'' (-3) (-50) env0 (dbWith ''collected'')) = Inr ()
   \<and> fieldOf (snd (completePickupAndAwardCredits ''p1'' (-3) (-50) env0 (dbWith ''collected'')))
        Pickups ''p1'' ''status'' = Some (Str ''completed'')
   \<and> fieldOf (snd (completePickupAndAwardCredits ''p1'' (-3) (-50) env0 (dbWith ''collected'')))
        Profiles ''u1'' ''greenCredits'' = Some (Num 50)
   \<and> fieldOf (snd (completePickupAndAwardCredits ''p1'' (-3) (-50) env0 (dbWith ''collected'')))
        Profiles ''u1'' ''co2SavedKg'' = Some (Num (21 / 2))
   \<and> fst (completePickupAndAwardCredits ''p9'' (-3) (-50) env0 (dbWith ''collected''))
        = Inl PickupNotFound
   \<and> snd (completePickupAndAwardCredits ''p9'' (-3) (-50) env0 (dbWith ''collected''))
        = dbWith ''collected''"
proof -
  have neg: "- 3 < (0::rat) \<or> - 50 < (0::rat)" by simp
  note t1 = completePickup_checks_no_sign[OF neg, of "''p1''" env0 "dbWith ''collected''"]
  note t9 = completePickup_checks_no_sign[OF neg, of "''p9''" env0 "dbWith ''collected''"]
  have h: "dbWith ''collected'' Pickups ''p1'' = Some (pickupDoc ''collected'')
          \<and> pickupDoc ''collected'' ''donorId'' = Some (Str ''u1'')
          \<and> dbWith ''collected'' Profiles ''u1'' = Some profileDoc"
    by (simp add: dbWith_simps pickupDoc_simps)
  from t1 h have 1:
    "fst (completePickupAndAwardCredits ''p1'' (-3) (-50) env0 (dbWith ''collected'')) = Inr ()
     \<and> fieldOf (snd (completePickupAndAwardCredits ''p1'' (-3) (-50) env0 (dbWith ''collected'')))
          Pickups ''p1'' ''status'' = Some (Str ''completed'')
     \<and> fieldOf (snd (completePickupAndAwardCredits ''p1'' (-3) (-50) env0 (dbWith ''collected'')))
          Profiles ''u1'' ''greenCredits''
           = Some (incremented profileDoc ''greenCredits'' (-50))
     \<and> fieldOf (snd (completePickupAndAwardCredits ''p1'' (-3) (-50) env0 (dbWith ''collected'')))
          Profiles ''u1'' ''co2SavedKg''
           = Some (incremented profileDoc ''co2SavedKg'' (mulDouble (-3) 1.5))"
    by blast
  have 3: "fst (completePickupAndAwardCredits ''p9'' (-3) (-50) env0 (dbWith ''collected''))
             = Inl PickupNotFound"
    using complete_no_pickup[of "dbWith ''collected''" "''p9''" "-3" "-50" env0] dbWith_simps(5)
    by simp
  from t9 3 have 4:
    "snd (completePickupAndAwardCredits ''p9'' (-3) (-50) env0 (dbWith ''collected''))
       = dbWith ''collected''"
    by blast
  show ?thesis
    using neg 1 3 4 mulDouble_examples(3,4) by (simp add: profileDoc_incremented)
qed

section \<open>No transition is checked when a status is written\<close>

lemma updatePickupStatus_missing:
  "db Pickups p = None \<Longrightarrow>
   updatePickupStatus p Y a e db = (Inl (NotFound Pickups p), db)"
  by (simp add: updatePickupStatus_def Let_def updateDoc_def commit_def)

lemma updatePickupStatus_existing:
  assumes "db Pickups p = Some pickup"
  shows "fst (updatePickupStatus p Y a e db) = Inr ()"
    and "\<And>i. i \<noteq> p \<Longrightarrow> snd (updatePickupStatus p Y a e db) Pickups i = db Pickups i"
    and "\<And>cl. cl \<noteq> Pickups \<Longrightarrow> snd (updatePickupStatus p Y a e db) cl = db cl"
  using assms by (simp_all add: updatePickupStatus_def Let_def updateDoc_def commit_def)

lemma updatePickupStatus_fields:
  fixes p Y :: string and e :: env and db :: firestore
  assumes pk: "db Pickups p = Some pickup"
  defines "db' \<equiv> snd (updatePickupStatus p Y None e db)"
  shows "fieldOf db' Pickups p ''status'' = Some (Str Y)
    \<and> fieldOf db' Pickups p ''updatedAt'' = Some (Timestamp (serverTime e))
    \<and> fieldOf db' Pickups p ''matchedAt''
        = (if Y = ''matched'' then Some (Timestamp (serverTime e)) else pickup ''matchedAt'')
    \<and> fieldOf db' Pickups p ''collectedAt''
        = (if Y = ''collected'' then Some (Timestamp (serverTime e)) else pickup ''collectedAt'')
    \<and> fieldOf db' Pickups p ''completedAt''
        = (if Y = ''completed'' then Some (Timestamp (serverTime e)) else pickup ''completedAt'')
    \<and> fieldOf db' Pickups p ''cancelledAt''
        = (if Y = ''cancelled'' then Some (Timestamp (serverTime e)) else pickup ''cancelledAt'')
    \<and> (\<forall>k. k \<notin> {''status'', ''updatedAt'', ''matchedAt'', ''collectedAt'', ''completedAt'',
                   ''cancelledAt''} \<longrightarrow> fieldOf db' Pickups p k = pickup k)"
proof -
  note defs = db'_def updatePickupStatus_def Let_def updateDoc_def commit_def
              updateData_def fieldOf_def
  consider (m) "Y = ''matched''" | (c) "Y = ''collected''" | (d) "Y = ''completed''"
    | (x) "Y = ''cancelled''"
    | (o) "Y \<noteq> ''matched''" "Y \<noteq> ''collected''" "Y \<noteq> ''completed''" "Y \<noteq> ''cancelled''"
    by blast
  then show ?thesis
  proof cases
    case m then show ?thesis using pk by (simp add: defs)
  next
    case c then show ?thesis using pk by (simp add: defs)
  next
    case d then show ?thesis using pk by (simp add: defs)
  next
    case x then show ?thesis using pk by (simp add: defs)
  next
    case o then show ?thesis using pk by (simp add: defs)
  qed
qed

text \<open>
  C3, as stated, fails: the request \<open>p1\<close> is \<open>pending\<close>; advancing it directly to
  \<open>collected\<close> succeeds and the status becomes \<open>collected\<close>. Likewise a \<open>completed\<close>
  request is put back to \<open>pending\<close>.
\<close>

theorem updatePickupStatus_skip_counterexample:
  "fieldOf (dbWith ''pending'') Pickups ''p1'' ''status'' = Some (Str ''pending'')
   \<and> fst (updatePickupStatus ''p1'' ''collected'' None env0 (dbWith ''pending'')) = Inr ()
   \<and> fieldOf (snd (updatePickupStatus ''p1'' ''collected'' None env0 (dbWith ''pending'')))
        Pickups ''p1'' ''status'' = Some (Str ''collected'')
   \<and> fieldOf (dbWith ''completed'') Pickups ''p1'' ''status'' = Some (Str ''completed'')
   \<and> fst (updatePickupStatus ''p1'' ''pending'' None env0 (dbWith ''completed'')) = Inr ()
   \<and> fieldOf (snd (updatePickupStatus ''p1'' ''pending'' None env0 (dbWith ''completed'')))
        Pickups ''p1'' ''status'' = Some (Str ''pending'')"
  using updatePickupStatus_existing(1)
          [where db="dbWith ''pending''" and p="''p1''", OF dbWith_simps(1)]
        updatePickupStatus_fields
          [where db="dbWith ''pending''" and p="''p1''", OF dbWith_simps(1), THEN conjunct1]
        updatePickupStatus_existing(1)
          [where db="dbWith ''completed''" and p="''p1''", OF dbWith_simps(1)]
        updatePickupStatus_fields
          [where db="dbWith ''completed''" and p="''p1''", OF dbWith_simps(1), THEN conjunct1]
  by (simp add: fieldOf_def dbWith_simps pickupDoc_simps)

text \<open>
  C3, amended. \<open>updatePickupStatus\<close> checks no transition and has no failure for a wrong
  one. On a request that exists it succeeds for every current status and every new
  status \<open>Y\<close>, also out of a terminal status; without additional data it sets the status
  to \<open>Y\<close> and \<open>updatedAt\<close> to the server time, stamps \<open>matchedAt\<close>, \<open>collectedAt\<close>,
  \<open>completedAt\<close> or \<open>cancelledAt\<close> when \<open>Y\<close> is that status, and leaves every other field,
  the other three of these four among them, and every other document unchanged. On a
  request that does not exist it is rejected and the store is unchanged.
\<close>

theorem updatePickupStatus_unconditional:
  "(\<forall>pickup. db Pickups p = Some pickup \<longrightarrow>
        fst (updatePickupStatus p Y a e db) = Inr ()
      \<and> (\<forall>i. i \<noteq> p \<longrightarrow> snd (updatePickupStatus p Y a e db) Pickups i = db Pickups i)
      \<and> (\<forall>cl. cl \<noteq> Pickups \<longrightarrow> snd (updatePickupStatus p Y a e db) cl = db cl)
      \<and> fieldOf (snd (updatePickupStatus p Y None e db)) Pickups p ''status'' = Some (Str Y)
      \<and> fieldOf (snd (updatePickupStatus p Y None e db)) Pickups p ''updatedAt''
          = Some (Timestamp (serverTime e))
      \<and> fieldOf (snd (updatePickupStatus p Y None e db)) Pickups p ''matchedAt''
          = (if Y = ''matched'' then Some (Timestamp (serverTime e)) else pickup ''matchedAt'')
      \<and> fieldOf (snd (updatePickupStatus p Y None e db)) Pickups p ''collectedAt''
          = (if Y = ''collected'' then Some (Timestamp (serverTime e)) else pickup ''collectedAt'')
      \<and> fieldOf (snd (updatePickupStatus p Y None e db)) Pickups p ''completedAt''
          = (if Y = ''completed'' then Some (Timestamp (serverTime e)) else pickup ''completedAt'')
      \<and> fieldOf (snd (updatePickupStatus p Y None e db)) Pickups p ''cancelledAt''
          = (if Y = ''cancelled'' then Some (Timestamp (serverTime e)) else pickup ''cancelledAt'')
      \<and> (\<forall>k. k \<notin> {''status'', ''updatedAt'', ''matchedAt'', ''collectedAt'', ''completedAt'',
                   ''cancelledAt''} \<longrightarrow>
           fieldOf (snd (updatePickupStatus p Y None e db)) Pickups p k = pickup k))
   \<and> (db Pickups p = None \<longrightarrow>
        updatePickupStatus p Y a e db = (Inl (NotFound Pickups p), db))"
proof (rule conjI)
  show "db Pickups p = None \<longrightarrow>
        updatePickupStatus p Y a e db = (Inl (NotFound Pickups p), db)"
    by (simp add: updatePickupStatus_missing)
next
  show "\<forall>pickup. db Pickups p = Some pickup \<longrightarrow>
        fst (updatePickupStatus p Y a e db) = Inr ()
      \<and> (\<forall>i. i \<noteq> p \<longrightarrow> snd (updatePickupStatus p Y a e db) Pickups i = db Pickups i)
      \<and> (\<forall>cl. cl \<noteq> Pickups \<longrightarrow> snd (updatePickupStatus p Y a e db) cl = db cl)
      \<and> fieldOf (snd (updatePickupStatus p Y None e db)) Pickups p ''status'' = Some (Str Y)
      \<and> fieldOf (snd (updatePickupStatus p Y None e db)) Pickups p ''updatedAt''
          = Some (Timestamp (serverTime e))
      \<and> fieldOf (snd (updatePickupStatus p Y None e db)) Pickups p ''matchedAt''
          = (if Y = ''matched'' then Some (Timestamp (serverTime e)) else pickup ''matchedAt'')
      \<and> fieldOf (snd (updatePickupStatus p Y None e db)) Pickups p ''collectedAt''
          = (if Y = ''collected'' then Some (Timestamp (serverTime e)) else pickup ''collectedAt'')
      \<and> fieldOf (snd (updatePickupStatus p Y None e db)) Pickups p ''completedAt''
          = (if Y = ''completed'' then Some (Timestamp (serverTime e)) else pickup ''completedAt'')
      \<and> fieldOf (snd (updatePickupStatus p Y None e db)) Pickups p ''cancelledAt''
          = (if Y = ''cancelled'' then Some (Timestamp (serverTime e)) else pickup ''cancelledAt'')
      \<and> (\<forall>k. k \<notin> {''status'', ''updatedAt'', ''matchedAt'', ''collectedAt'', ''completedAt'',
                   ''cancelledAt''} \<longrightarrow>
           fieldOf (snd (updatePickupStatus p Y None e db)) Pickups p k = pickup k)"
  proof (intro allI impI)
    fix pickup assume pk: "db Pickups p = Some pickup"
    note x = updatePickupStatus_existing[where db=db and p=p and Y=Y and a=a and e=e, OF pk]
    note f = updatePickupStatus_fields[where db=db and p=p and Y=Y and e=e, OF pk]
    show "fst (updatePickupStatus p Y a e db) = Inr ()
      \<and> (\<forall>i. i \<noteq> p \<longrightarrow> snd (updatePickupStatus p Y a e db) Pickups i = db Pickups i)
      \<and> (\<forall>cl. cl \<noteq> Pickups \<longrightarrow> snd (updatePickupStatus p Y a e db) cl = db cl)
      \<and> fieldOf (snd (updatePickupStatus p Y None e db)) Pickups p ''status'' = Some (Str Y)
      \<and> fieldOf (snd (updatePickupStatus p Y None e db)) Pickups p ''updatedAt''
          = Some (Timestamp (serverTime e))
      \<and> fieldOf (snd (updatePickupStatus p Y None e db)) Pickups p ''matchedAt''
          = (if Y = ''matched'' then Some (Timestamp (serverTime e)) else pickup ''matchedAt'')
      \<and> fieldOf (snd (updatePickupStatus p Y None e db)) Pickups p ''collectedAt''
          = (if Y = ''collected'' then Some (Timestamp (serverTime e)) else pickup ''collectedAt'')
      \<and> fieldOf (snd (updatePickupStatus p Y None e db)) Pickups p ''completedAt''
          = (if Y = ''completed'' then Some (Timestamp (serverTime e)) else pickup ''completedAt'')
      \<and> fieldOf (snd (updatePickupStatus p Y None e db)) Pickups p ''cancelledAt''
          = (if Y = ''cancelled'' then Some (Timestamp (serverTime e)) else pickup ''cancelledAt'')
      \<and> (\<forall>k. k \<notin> {''status'', ''updatedAt'', ''matchedAt'', ''collectedAt'', ''completedAt'',
                   ''cancelledAt''} \<longrightarrow>
           fieldOf (snd (updatePickupStatus p Y None e db)) Pickups p k = pickup k)"
    proof -
      have X2: "\<forall>i. i \<noteq> p \<longrightarrow> snd (updatePickupStatus p Y a e db) Pickups i = db Pickups i"
        using x(2) by blast
      have X3: "\<forall>cl. cl \<noteq> Pickups \<longrightarrow> snd (updatePickupStatus p Y a e db) cl = db cl"
        using x(3) by blast
      show ?thesis by (rule conjI[OF x(1) conjI[OF X2 conjI[OF X3 f]]])
    qed
  qed
qed

theorem updatePickupStatus_unconditional_witness:
  "fst (updatePickupStatus ''p1'' ''collected'' None env0 (dbWith ''pending'')) = Inr ()
   \<and> fieldOf (snd (updatePickupStatus ''p1'' ''collected'' None env0 (dbWith ''pending'')))
        Pickups ''p1'' ''status'' = Some (Str ''collected'')
   \<and> fieldOf (snd (updatePickupStatus ''p1'' ''collected'' None env0 (dbWith ''pending'')))
        Pickups ''p1'' ''collectedAt'' = Some (Timestamp 1000)
   \<and> fieldOf (snd (updatePickupStatus ''p1'' ''collected'' None env0 (dbWith ''pending'')))
        Pickups ''p1'' ''matchedAt'' = None
   \<and> fieldOf (snd (updatePickupStatus ''p1'' ''collected'' None env0 (dbWith ''pending'')))
        Pickups ''p1'' ''completedAt'' = None
   \<and> fieldOf (snd (updatePickupStatus ''p1'' ''collected'' None env0 (dbWith ''pending'')))
        Pickups ''p1'' ''donorId'' = Some (Str ''u1'')
   \<and> snd (updatePickupStatus ''p1'' ''collected'' None env0 (dbWith ''pending'')) Profiles
        = dbWith ''pending'' Profiles
   \<and> updatePickupStatus ''p9'' ''collected'' None env0 (dbWith ''pending'')
        = (Inl (NotFound Pickups ''p9''), dbWith ''pending'')"
proof -
  note t1 = updatePickupStatus_unconditional
              [of "dbWith ''pending''" "''p1''" "''collected''" None env0]
  note t9 = updatePickupStatus_unconditional
              [of "dbWith ''pending''" "''p9''" "''collected''" None env0]
  have k: "''donorId'' \<notin> {''status'', ''updatedAt'', ''matchedAt'', ''collectedAt'',
                            ''completedAt'', ''cancelledAt''}"
    by simp
  have c: "Profiles \<noteq> Pickups" by simp
  note B = t1[THEN conjunct1, rule_format, OF dbWith_simps(1)]
  note B3 = B[THEN conjunct2, THEN conjunct2]
  note B6 = B3[THEN conjunct2, THEN conjunct2, THEN conjunct2]
  note B9 = B6[THEN conjunct2, THEN conjunct2, THEN conjunct2]
  have 1: "fst (updatePickupStatus ''p1'' ''collected'' None env0 (dbWith ''pending'')) = Inr ()"
    by (rule B[THEN conjunct1])
  have 3: "snd (updatePickupStatus ''p1'' ''collected'' None env0 (dbWith ''pending'')) Profiles
          = dbWith ''pending'' Profiles"
    by (rule B3[THEN conjunct1, rule_format, OF c])
  have 4: "fieldOf (snd (updatePickupStatus ''p1'' ''collected'' None env0 (dbWith ''pending'')))
          Pickups ''p1'' ''status'' = Some (Str ''collected'')"
    by (rule B3[THEN conjunct2, THEN conjunct1])
  have 6: "fieldOf (snd (updatePickupStatus ''p1'' ''collected'' None env0 (dbWith ''pending'')))
          Pickups ''p1'' ''matchedAt''
            = (if ''collected'' = ''matched'' then Some (Timestamp (serverTime env0))
               else pickupDoc ''pending'' ''matchedAt'')"
    by (rule B6[THEN conjunct1])
  have 7: "fieldOf (snd (updatePickupStatus ''p1'' ''collected'' None env0 (dbWith ''pending'')))
          Pickups ''p1'' ''collectedAt''
            = (if ''collected'' = ''collected'' then Some (Timestamp (serverTime env0))
               else pickupDoc ''pending'' ''collectedAt'')"
    by (rule B6[THEN conjunct2, THEN conjunct1])
  have 8: "fieldOf (snd (updatePickupStatus ''p1'' ''collected'' None env0 (dbWith ''pending'')))
          Pickups ''p1'' ''completedAt''
            = (if ''collected'' = ''completed'' then Some (Timestamp (serverTime env0))
               else pickupDoc ''pending'' ''completedAt'')"
    by (rule B6[THEN conjunct2, THEN conjunct2, THEN conjunct1])
  have absent: "pickupDoc ''pending'' ''matchedAt'' = None"
    "pickupDoc ''pending'' ''completedAt'' = None"
    by (simp_all add: pickupDoc_def)
  have 10: "fieldOf (snd (updatePickupStatus ''p1'' ''collected'' None env0 (dbWith ''pending'')))
          Pickups ''p1'' ''donorId'' = pickupDoc ''pending'' ''donorId''"
    by (rule B9[THEN conjunct2, rule_format, OF k])
  have 2:
    "updatePickupStatus ''p9'' ''collected'' None env0 (dbWith ''pending'')
        = (Inl (NotFound Pickups ''p9''), dbWith ''pending'')"
    by (rule t9[THEN conjunct2, rule_format, OF dbWith_simps(5)])
  show ?thesis using 1 2 3 4 6 7 8 10 by (simp add: env0_simps pickupDoc_simps absent)
qed

section \<open>The badge level\<close>

lemma complete_keeps_badgeLevel:
  "fieldOf (snd (completePickupAndAwardCredits p w c e db)) Profiles u ''badgeLevel''
     = fieldOf db Profiles u ''badgeLevel''"
proof (cases "fst (completePickupAndAwardCredits p w c e db)")
  case (Inl err)
  then show ?thesis by (simp add: complete_fail_unchanged)
next
  case (Inr x)
  then have "fst (completePickupAndAwardCredits p w c e db) = Inr ()" by simp
  then obtain pickup d where
    pk: "db Pickups p = Some pickup" and dn: "pickup ''donorId'' = Some (Str d)"
    and "db Profiles d \<noteq> None"
    unfolding complete_success_iff by blast
  then obtain profile where pr: "db Profiles d = Some profile" by blast
  show ?thesis
    using complete_success(3)[where w=w and c=c and e=e, OF pk dn pr] pr
    by (simp add: fieldOf_def)
qed

lemma awards_keep_badgeLevel:
  "fieldOf (awards calls db) Profiles u ''badgeLevel'' = fieldOf db Profiles u ''badgeLevel''"
  by (induction calls db rule: awards.induct) (simp_all add: complete_keeps_badgeLevel)

text \<open>
  C5. The services store \<open>badgeLevel\<close> when a profile is created, as \<open>seedling\<close>, and
  no award writes it again: completing a pickup never changes the \<open>badgeLevel\<close> of any
  profile, and neither does any sequence of awards. So after the run \<open>awardRun c\<close> the
  balance is \<open>c\<close>, whatever \<open>c\<close> is, and the stored level is still \<open>seedling\<close>: for a
  balance beyond the entry tier of the threshold table, whatever its values, the stored
  level is not the tier of the balance.
\<close>

theorem badgeLevel_not_recomputed:
  "fieldOf (exec (CompletePickupAndAwardCredits p w c) e db) Profiles u ''badgeLevel''
     = fieldOf db Profiles u ''badgeLevel''
   \<and> fieldOf (awards calls db) Profiles u ''badgeLevel'' = fieldOf db Profiles u ''badgeLevel''
   \<and> fieldOf (awardRun c) Profiles ''u1'' ''greenCredits'' = Some (Num c)
   \<and> fieldOf (awardRun c) Profiles ''u1'' ''badgeLevel'' = Some (Str ''seedling'')"
proof -
  define db0 where "db0 = snd (createProfile ''u1'' Map.empty env0 (\<lambda>cl. Map.empty))"
  define db1 where
    "db1 = snd (createPickup
                  [''donorId'' \<mapsto> Str ''u1'', ''status'' \<mapsto> Str ''collected'',
                   ''totalItems'' \<mapsto> Num 2] env0 db0)"
  have run: "awardRun c = snd (completePickupAndAwardCredits ''id0'' 5 c env1 db1)"
    by (simp add: awardRun_def db0_def db1_def)
  have p0: "fieldOf db0 Profiles ''u1'' ''badgeLevel'' = Some (Str ''seedling'')"
    "fieldOf db0 Profiles ''u1'' ''greenCredits'' = Some (Num 0)"
    by (simp_all add: db0_def createProfile_def Let_def setDoc_def commit_def setData_def
                      plain_def fieldOf_def)
  have p1: "db1 Profiles = db0 Profiles"
    by (simp add: db1_def createPickup_def addDoc_def setDoc_def commit_def)
  obtain profile where pr: "db1 Profiles ''u1'' = Some profile"
    and bl: "profile ''badgeLevel'' = Some (Str ''seedling'')"
    and gc: "profile ''greenCredits'' = Some (Num 0)"
    using p0 unfolding p1 by (auto simp: fieldOf_def split: option.splits)
  obtain pickup where pk: "db1 Pickups ''id0'' = Some pickup"
    and dn: "pickup ''donorId'' = Some (Str ''u1'')"
    by (simp add: db1_def createPickup_def addDoc_def setDoc_def commit_def setData_def
                  plain_def env0_simps)
  have "fieldOf (awardRun c) Profiles ''u1'' ''greenCredits'' = Some (Num c)"
    unfolding run
    using complete_success(3)[where w=5 and c=c and e=env1, OF pk dn pr] gc
    by (simp add: fieldOf_def incremented_def numField_def)
  moreover have "fieldOf (awardRun c) Profiles ''u1'' ''badgeLevel'' = Some (Str ''seedling'')"
    unfolding run complete_keeps_badgeLevel using pr bl by (simp add: fieldOf_def)
  ultimately show ?thesis by (simp add: complete_keeps_badgeLevel awards_keep_badgeLevel)
qed

section \<open>Creating a request\<close>

lemma sumDouble_Nil [simp]: "sumDouble [] = 0"
  by (simp add: sumDouble_def)

lemma mulDouble_zero [simp]: "mulDouble 0 y = 0"
  by (simp add: mulDouble_def toDouble_def)

lemma foldl_addDouble: "foldl (\<lambda>s i. addDouble s (f i)) 0 xs = sumDouble (map f xs)"
  by (simp add: sumDouble_def foldl_map)

text \<open>A batch of \<open>set\<close> writes never fails.\<close>

lemma applyWrites_sets:
  "applyWrites t (map (\<lambda>(i, d). BatchSet c i d) ws) db = Inr (setsOf t c ws db)"
  by (induction ws arbitrary: db) auto

lemma setsOf_other: "c' \<noteq> c \<Longrightarrow> setsOf t c ws db c' = db c'"
  by (induction ws arbitrary: db) auto

lemma setsOf_notin: "k \<notin> fst ` set ws \<Longrightarrow> setsOf t c ws db c k = db c k"
  by (induction ws arbitrary: db) auto

lemma setsOf_in:
  "distinct (map fst ws) \<Longrightarrow> (k, d) \<in> set ws \<Longrightarrow> setsOf t c ws db c k = Some (setData t d)"
proof (induction ws arbitrary: db)
  case Nil
  then show ?case by simp
next
  case (Cons w ws)
  obtain i d' where w: "w = (i, d')" by (cases w)
  show ?case
  proof (cases "(k, d) = w")
    case True
    then have "k \<notin> fst ` set ws" using Cons.prems(1) w by auto
    then show ?thesis using True w by (simp add: setsOf_notin)
  next
    case False
    then show ?thesis using Cons w by auto
  qed
qed

lemma setsOf_frame: "db1 c = db2 c \<Longrightarrow> setsOf t c ws db1 c = setsOf t c ws db2 c"
proof (induction ws arbitrary: db1 db2)
  case Nil
  then show ?case by simp
next
  case (Cons w ws)
  obtain i d where w: "w = (i, d)" by (cases w)
  let ?db1 = "db1(c := (db1 c)(i \<mapsto> setData t d))"
  let ?db2 = "db2(c := (db2 c)(i \<mapsto> setData t d))"
  have eq: "?db1 c = ?db2 c" by (simp add: Cons.prems)
  have "setsOf t c ws ?db1 c = setsOf t c ws ?db2 c"
    by (rule Cons.IH[of ?db1 ?db2, OF eq])
  then show ?case unfolding w setsOf.simps .
qed

lemma addPickupItems_as_sets:
  "addPickupItems pickupId its e db =
     (Inr (), setsOf (serverTime e) PickupItems
        (map (\<lambda>(i, item). (autoId e i,
                (plain item)(''pickupId'' \<mapsto> Val (Str pickupId),
                             ''createdAt'' \<mapsto> ServerTimestamp)))
             (enumerate 0 its)) db)"
proof -
  have eq: "map (\<lambda>(i, item).
               BatchSet PickupItems (autoId e i)
                 ((plain item)(''pickupId'' \<mapsto> Val (Str pickupId),
                               ''createdAt'' \<mapsto> ServerTimestamp)))
            (enumerate 0 its)
        = map (\<lambda>(i, d). BatchSet PickupItems i d)
            (map (\<lambda>(i, item). (autoId e i,
                (plain item)(''pickupId'' \<mapsto> Val (Str pickupId),
                             ''createdAt'' \<mapsto> ServerTimestamp)))
             (enumerate 0 its))"
    by (simp add: case_prod_unfold)
  then show ?thesis
    unfolding addPickupItems_def commit_def by (simp only: applyWrites_sets sum.case)
qed

lemma addPickupItems_other: "c \<noteq> PickupItems \<Longrightarrow> snd (addPickupItems p its e db) c = db c"
  by (simp add: addPickupItems_as_sets setsOf_other)

lemma map_fst_pairs: "map fst (map (\<lambda>(i, x). (ids i, g x)) ps) = map ids (map fst ps)"
  by (induction ps) auto

lemma pair_in_map: "(i, x) \<in> set ps \<Longrightarrow> (ids i, g x) \<in> set (map (\<lambda>(i, x). (ids i, g x)) ps)"
  by (induction ps) auto

lemma fst_set_ws:
  "fst ` set (map (\<lambda>(i, x). (ids i, g x)) (enumerate 0 its)) = ids ` {..<length its}"
proof -
  have "fst ` set (map (\<lambda>(i, x). (ids i, g x)) (enumerate 0 its))
          = set (map fst (map (\<lambda>(i, x). (ids i, g x)) (enumerate 0 its)))"
    by (simp only: set_map)
  also have "\<dots> = set (map ids (map fst (enumerate 0 its)))"
    by (simp only: map_fst_pairs)
  also have "\<dots> = ids ` {..<length its}"
    by (simp only: map_fst_enumerate set_map set_upt) (simp add: lessThan_atLeast0)
  finally show ?thesis .
qed

lemma distinct_ws:
  "distinct (map ids [0..<length its]) \<Longrightarrow>
   distinct (map fst (map (\<lambda>(i, x). (ids i, g x)) (enumerate 0 its)))"
  by (simp only: map_fst_pairs map_fst_enumerate) simp

lemma addPickupItems_outside:
  assumes k: "k \<notin> autoId e ` {..<length its}"
  shows "snd (addPickupItems p its e db) PickupItems k = db PickupItems k"
proof -
  let ?g = "\<lambda>item. (plain item)(''pickupId'' \<mapsto> Val (Str p), ''createdAt'' \<mapsto> ServerTimestamp)"
  let ?ws = "map (\<lambda>(i, item). (autoId e i, ?g item)) (enumerate 0 its)"
  have "k \<notin> fst ` set ?ws" unfolding fst_set_ws by (rule k)
  then show ?thesis
    unfolding addPickupItems_as_sets snd_conv by (rule setsOf_notin)
qed

lemma addPickupItems_at:
  assumes d: "distinct (map (autoId e) [0..<length its])" and i: "i < length its"
  shows "snd (addPickupItems p its e db) PickupItems (autoId e i) =
           Some (setData (serverTime e)
                   ((plain (its ! i))(''pickupId'' \<mapsto> Val (Str p),
                                      ''createdAt'' \<mapsto> ServerTimestamp)))"
proof -
  let ?g = "\<lambda>item. (plain item)(''pickupId'' \<mapsto> Val (Str p), ''createdAt'' \<mapsto> ServerTimestamp)"
  let ?ws = "map (\<lambda>(i, item). (autoId e i, ?g item)) (enumerate 0 its)"
  have 1: "distinct (map fst ?ws)" using d by (rule distinct_ws)
  have "(i, its ! i) \<in> set (enumerate 0 its)" using i by (simp add: in_set_enumerate_eq)
  then have 2: "(autoId e i, ?g (its ! i)) \<in> set ?ws"
    by (rule pair_in_map)
  show ?thesis
    unfolding addPickupItems_as_sets snd_conv by (rule setsOf_in[OF 1 2])
qed

lemma createPickup_result:
  "fst (createPickup D e db) = Inr (autoId e 0)"
  "snd (createPickup D e db) =
     db(Pickups := (db Pickups)(autoId e 0 \<mapsto>
          setData (serverTime e)
            ((plain D)(''createdAt'' \<mapsto> ServerTimestamp, ''updatedAt'' \<mapsto> ServerTimestamp))))"
  by (simp_all add: createPickup_def addDoc_def setDoc_def commit_def)

lemma created_field:
  "k \<noteq> ''createdAt'' \<Longrightarrow> k \<noteq> ''updatedAt'' \<Longrightarrow>
   setData t ((plain D)(''createdAt'' \<mapsto> ServerTimestamp, ''updatedAt'' \<mapsto> ServerTimestamp)) k
     = D k"
  by (cases "D k") (simp_all add: setData_def plain_def)

lemma handleSubmit_eq:
  "handleSubmit u fd e1 e2 db =
     (Inr (autoId e1 0),
      snd (addPickupItems (autoId e1 0) (map newItemData (items fd)) e2
             (snd (createPickup
                     (newPickupData u fd
                        (sumDouble (map quantity (items fd)))
                        (sumDouble
                           (map (\<lambda>i. mulDouble (estimatedWeight i) (quantity i)) (items fd)))
                        (of_int (round (mulDouble
                           (sumDouble
                              (map (\<lambda>i. mulDouble (estimatedWeight i) (quantity i)) (items fd)))
                           20))))
                     e1 db))))"
  unfolding handleSubmit_def Let_def foldl_addDouble
  by (simp add: createPickup_def addDoc_def addPickupItems_as_sets)

lemma newPickupData_simps:
  "newPickupData u fd ti tw ec ''status'' = Some (Str ''pending'')"
  "newPickupData u fd ti tw ec ''donorId'' = Some (Str u)"
  "newPickupData u fd ti tw ec ''totalItems'' = Some (Num ti)"
  "newPickupData u fd ti tw ec ''estimatedWeightKg'' = Some (Num tw)"
  "newPickupData u fd ti tw ec ''estimatedCredits'' = Some (Num ec)"
  by (simp_all add: newPickupData_def)

lemma handleSubmit_pickup:
  "fst (handleSubmit u fd e1 e2 db) = Inr (autoId e1 0)"
  "fieldOf (snd (handleSubmit u fd e1 e2 db)) Pickups (autoId e1 0) ''status''
     = Some (Str ''pending'')"
  "fieldOf (snd (handleSubmit u fd e1 e2 db)) Pickups (autoId e1 0) ''donorId'' = Some (Str u)"
  "fieldOf (snd (handleSubmit u fd e1 e2 db)) Pickups (autoId e1 0) ''totalItems''
     = Some (Num (sumDouble (map quantity (items fd))))"
  "fieldOf (snd (handleSubmit u fd e1 e2 db)) Pickups (autoId e1 0) ''estimatedWeightKg''
     = Some (Num (sumDouble
                    (map (\<lambda>i. mulDouble (estimatedWeight i) (quantity i)) (items fd))))"
  "fieldOf (snd (handleSubmit u fd e1 e2 db)) Pickups (autoId e1 0) ''estimatedCredits''
     = Some (Num (of_int (round (mulDouble
         (sumDouble (map (\<lambda>i. mulDouble (estimatedWeight i) (quantity i)) (items fd)))
         20))))"
  "\<And>k. k \<noteq> autoId e1 0 \<Longrightarrow> snd (handleSubmit u fd e1 e2 db) Pickups k = db Pickups k"
  unfolding handleSubmit_eq fst_conv snd_conv
  by (simp_all add: addPickupItems_other createPickup_result fieldOf_def created_field
                    newPickupData_simps)

lemma handleSubmit_items:
  "snd (handleSubmit u fd e1 e2 db) PickupItems =
     snd (addPickupItems (autoId e1 0) (map newItemData (items fd)) e2 db) PickupItems"
  unfolding handleSubmit_eq snd_conv addPickupItems_as_sets
  by (rule setsOf_frame) (simp add: createPickup_result)

lemma formStep_inv: "formInv s \<Longrightarrow> formInv (formStep s ev)"
proof -
  assume inv: "formInv s"
  obtain st its where s: "s = (st, its)" by (cases s)
  show ?thesis
  proof (cases ev)
    case (Toggle catId catName avgWeightKg)
    then show ?thesis using inv
      by (auto simp: s formInv_def toggleCategory_def list_all_iff)
  next
    case (Minus catId)
    then show ?thesis using inv
      by (auto simp: s formInv_def minusQuantity_def list_all_iff)
  next
    case (Plus catId)
    then show ?thesis using inv
      by (auto simp: s formInv_def plusQuantity_def list_all_iff)
  next
    case (Condition catId cond)
    then show ?thesis using inv
      by (auto simp: s formInv_def setCondition_def list_all_iff)
  next
    case Next
    then show ?thesis using inv
      by (auto simp: s formInv_def split: if_splits)
  next
    case Back
    then show ?thesis using inv
      by (auto simp: s formInv_def split: if_splits)
  qed
qed

lemma foldl_formStep_inv: "formInv s \<Longrightarrow> formInv (foldl formStep s evs)"
  by (induction evs arbitrary: s) (simp_all add: formStep_inv)

lemma formRun_inv: "formInv (formRun evs)"
  unfolding formRun_def by (rule foldl_formStep_inv) (simp add: formInv_def)

text \<open>
  C8. For every form data (with a non-empty item list, and with an empty one as well),
  \<open>handleSubmit\<close> creates the request under the generated id with status \<open>pending\<close>,
  \<open>totalItems\<close> the sum of the quantities, \<open>estimatedWeightKg\<close> the sum over the items
  of weight per unit times quantity, and \<open>estimatedCredits\<close> that weight times 20,
  rounded to the nearest integer. Sums and products are those of doubles, the sums
  taken from left to right; for quantities that are whole numbers with a sum below
  \<^verbatim>\<open>2^53\<close>, \<open>totalItems\<close> is their exact sum.
\<close>

theorem handleSubmit_creates_pending_request:
  "fst (handleSubmit userId fd e1 e2 db) = Inr (autoId e1 0)
   \<and> fieldOf (snd (handleSubmit userId fd e1 e2 db)) Pickups (autoId e1 0) ''status''
       = Some (Str ''pending'')
   \<and> fieldOf (snd (handleSubmit userId fd e1 e2 db)) Pickups (autoId e1 0) ''totalItems''
       = Some (Num (sumDouble (map quantity (items fd))))
   \<and> fieldOf (snd (handleSubmit userId fd e1 e2 db)) Pickups (autoId e1 0) ''estimatedWeightKg''
       = Some (Num (sumDouble
                      (map (\<lambda>i. mulDouble (estimatedWeight i) (quantity i)) (items fd))))
   \<and> fieldOf (snd (handleSubmit userId fd e1 e2 db)) Pickups (autoId e1 0) ''estimatedCredits''
       = Some (Num (of_int (round (mulDouble
           (sumDouble (map (\<lambda>i. mulDouble (estimatedWeight i) (quantity i)) (items fd)))
           20))))
   \<and> ((\<forall>i\<in>set (items fd). quantity i \<in> \<nat>) \<and> sum_list (map quantity (items fd)) < 2 ^ 53
        \<longrightarrow> fieldOf (snd (handleSubmit userId fd e1 e2 db)) Pickups (autoId e1 0) ''totalItems''
              = Some (Num (sum_list (map quantity (items fd)))))"
proof -
  let ?ti = "sumDouble (map quantity (items fd))"
  let ?tw = "sumDouble (map (\<lambda>i. mulDouble (estimatedWeight i) (quantity i)) (items fd))"
  let ?request = "newPickupData userId fd ?ti ?tw (of_int (round (mulDouble ?tw 20)))"
  have totals:
    "foldl (\<lambda>s i. addDouble s (quantity i)) 0 (items fd) = ?ti"
    "foldl (\<lambda>s i. addDouble s (mulDouble (estimatedWeight i) (quantity i))) 0 (items fd) = ?tw"
    by (simp_all only: foldl_addDouble)
  have run: "handleSubmit userId fd e1 e2 db =
               (Inr (autoId e1 0),
                snd (addPickupItems (autoId e1 0) (map newItemData (items fd)) e2
                       (snd (createPickup ?request e1 db))))"
    unfolding handleSubmit_def Let_def totals
    by (simp add: createPickup_def addDoc_def addPickupItems_as_sets)
  have stored: "snd (handleSubmit userId fd e1 e2 db) Pickups (autoId e1 0) =
                  Some (setData (serverTime e1)
                          ((plain ?request)(''createdAt'' \<mapsto> ServerTimestamp,
                                            ''updatedAt'' \<mapsto> ServerTimestamp)))"
    unfolding run snd_conv by (simp add: addPickupItems_other createPickup_result)
  have fields:
    "fst (handleSubmit userId fd e1 e2 db) = Inr (autoId e1 0)"
    "fieldOf (snd (handleSubmit userId fd e1 e2 db)) Pickups (autoId e1 0) ''status''
       = Some (Str ''pending'')"
    "fieldOf (snd (handleSubmit userId fd e1 e2 db)) Pickups (autoId e1 0) ''totalItems''
       = Some (Num ?ti)"
    "fieldOf (snd (handleSubmit userId fd e1 e2 db)) Pickups (autoId e1 0) ''estimatedWeightKg''
       = Some (Num ?tw)"
    "fieldOf (snd (handleSubmit userId fd e1 e2 db)) Pickups (autoId e1 0) ''estimatedCredits''
       = Some (Num (of_int (round (mulDouble ?tw 20))))"
    unfolding fieldOf_def stored option.case
    by (simp_all add: run created_field newPickupData_simps)
  have exact: "(\<forall>i\<in>set (items fd). quantity i \<in> \<nat>) \<and> sum_list (map quantity (items fd)) < 2 ^ 53
        \<longrightarrow> fieldOf (snd (handleSubmit userId fd e1 e2 db)) Pickups (autoId e1 0) ''totalItems''
              = Some (Num (sum_list (map quantity (items fd))))"
  proof
    assume a: "(\<forall>i\<in>set (items fd). quantity i \<in> \<nat>)
                 \<and> sum_list (map quantity (items fd)) < 2 ^ 53"
    then have "\<forall>x\<in>set (map quantity (items fd)). x \<in> \<nat>" by simp
    then have "?ti = sum_list (map quantity (items fd))"
      using a by (intro sumDouble_exact) simp_all
    then show "fieldOf (snd (handleSubmit userId fd e1 e2 db)) Pickups (autoId e1 0) ''totalItems''
              = Some (Num (sum_list (map quantity (items fd))))"
      using fields(3) by simp
  qed
  show ?thesis
    by (rule conjI[OF fields(1) conjI[OF fields(2) conjI[OF fields(3)
              conjI[OF fields(4) conjI[OF fields(5) exact]]]]])
qed

text \<open>
  The example of the specification: one item, quantity 2, 0.2 kg each, gives 0.4 kg and
  8 credits. And one item, quantity 3, 0.175 kg each: the product of the doubles is
  0.5249999999999999, twenty times that is 10.499999999999998, and the credits are 10.
\<close>

theorem handleSubmit_creates_pending_request_witness:
  "fst (handleSubmit ''u1'' (formWith [phoneItem 2]) env0 env1 dbEmpty) = Inr ''id0''
   \<and> fieldOf (snd (handleSubmit ''u1'' (formWith [phoneItem 2]) env0 env1 dbEmpty))
        Pickups ''id0'' ''status'' = Some (Str ''pending'')
   \<and> fieldOf (snd (handleSubmit ''u1'' (formWith [phoneItem 2]) env0 env1 dbEmpty))
        Pickups ''id0'' ''totalItems'' = Some (Num 2)
   \<and> fieldOf (snd (handleSubmit ''u1'' (formWith [phoneItem 2]) env0 env1 dbEmpty))
        Pickups ''id0'' ''estimatedWeightKg'' = Some (Num (toDouble 0.4))
   \<and> fieldOf (snd (handleSubmit ''u1'' (formWith [phoneItem 2]) env0 env1 dbEmpty))
        Pickups ''id0'' ''estimatedCredits'' = Some (Num 8)
   \<and> fieldOf (snd (handleSubmit ''u1'' (formWith [weighedItem 3 0.175]) env0 env1 dbEmpty))
        Pickups ''id0'' ''totalItems'' = Some (Num 3)
   \<and> fieldOf (snd (handleSubmit ''u1'' (formWith [weighedItem 3 0.175]) env0 env1 dbEmpty))
        Pickups ''id0'' ''estimatedWeightKg''
          = Some (Num (1182194902184755 / 2251799813685248))
   \<and> fieldOf (snd (handleSubmit ''u1'' (formWith [weighedItem 3 0.175]) env0 env1 dbEmpty))
        Pickups ''id0'' ''estimatedCredits'' = Some (Num 10)"
proof -
  note t2 = handleSubmit_creates_pending_request
              [of "''u1''" "formWith [phoneItem 2]" env0 env1 dbEmpty]
  note t3 = handleSubmit_creates_pending_request
              [of "''u1''" "formWith [weighedItem 3 0.175]" env0 env1 dbEmpty]
  have w2: "sumDouble (map (\<lambda>i. mulDouble (estimatedWeight i) (quantity i))
                         (items (formWith [phoneItem 2]))) = toDouble 0.4"
    by code_simp
  have c2: "of_int (round (mulDouble (toDouble 0.4) 20)) = (8::rat)"
    by code_simp
  have w3: "sumDouble (map (\<lambda>i. mulDouble (estimatedWeight i) (quantity i))
                         (items (formWith [weighedItem 3 0.175])))
              = 1182194902184755 / 2251799813685248"
    by code_simp
  have c3: "of_int (round (mulDouble (1182194902184755 / 2251799813685248) 20)) = (10::rat)"
    by code_simp
  have q2: "(\<forall>i\<in>set (items (formWith [phoneItem 2])). quantity i \<in> \<nat>)
              \<and> sum_list (map quantity (items (formWith [phoneItem 2]))) < 2 ^ 53"
    by (simp add: formWith_def phoneItem_def weighedItem_def)
  have q3: "(\<forall>i\<in>set (items (formWith [weighedItem 3 0.175])). quantity i \<in> \<nat>)
              \<and> sum_list (map quantity (items (formWith [weighedItem 3 0.175]))) < 2 ^ 53"
    by (simp add: formWith_def phoneItem_def weighedItem_def)
  note e2 = t2[THEN conjunct2, THEN conjunct2, THEN conjunct2, THEN conjunct2, THEN conjunct2,
               rule_format, OF q2]
  note e3 = t3[THEN conjunct2, THEN conjunct2, THEN conjunct2, THEN conjunct2, THEN conjunct2,
               rule_format, OF q3]
  have s2: "sum_list (map quantity (items (formWith [phoneItem 2]))) = 2"
    and s3: "sum_list (map quantity (items (formWith [weighedItem 3 0.175]))) = 3"
    by (simp_all add: formWith_def phoneItem_def weighedItem_def)
  have 1: "fst (handleSubmit ''u1'' (formWith [phoneItem 2]) env0 env1 dbEmpty)
             = Inr (autoId env0 0)"
    by (rule t2[THEN conjunct1])
  have 2: "fieldOf (snd (handleSubmit ''u1'' (formWith [phoneItem 2]) env0 env1 dbEmpty))
             Pickups (autoId env0 0) ''status'' = Some (Str ''pending'')"
    by (rule t2[THEN conjunct2, THEN conjunct1])
  have 3: "fieldOf (snd (handleSubmit ''u1'' (formWith [phoneItem 2]) env0 env1 dbEmpty))
             Pickups (autoId env0 0) ''totalItems'' = Some (Num 2)"
    using e2 unfolding s2 .
  have 4: "fieldOf (snd (handleSubmit ''u1'' (formWith [phoneItem 2]) env0 env1 dbEmpty))
             Pickups (autoId env0 0) ''estimatedWeightKg'' = Some (Num (toDouble 0.4))"
    using t2[THEN conjunct2, THEN conjunct2, THEN conjunct2, THEN conjunct1] unfolding w2 .
  have 5: "fieldOf (snd (handleSubmit ''u1'' (formWith [phoneItem 2]) env0 env1 dbEmpty))
             Pickups (autoId env0 0) ''estimatedCredits'' = Some (Num 8)"
    using t2[THEN conjunct2, THEN conjunct2, THEN conjunct2, THEN conjunct2, THEN conjunct1]
    unfolding w2 c2 .
  have 6: "fieldOf (snd (handleSubmit ''u1'' (formWith [weighedItem 3 0.175]) env0 env1 dbEmpty))
             Pickups (autoId env0 0) ''totalItems'' = Some (Num 3)"
    using e3 unfolding s3 .
  have 7: "fieldOf (snd (handleSubmit ''u1'' (formWith [weighedItem 3 0.175]) env0 env1 dbEmpty))
             Pickups (autoId env0 0) ''estimatedWeightKg''
               = Some (Num (1182194902184755 / 2251799813685248))"
    using t3[THEN conjunct2, THEN conjunct2, THEN conjunct2, THEN conjunct1] unfolding w3 .
  have 8: "fieldOf (snd (handleSubmit ''u1'' (formWith [weighedItem 3 0.175]) env0 env1 dbEmpty))
             Pickups (autoId env0 0) ''estimatedCredits'' = Some (Num 10)"
    using t3[THEN conjunct2, THEN conjunct2, THEN conjunct2, THEN conjunct2, THEN conjunct1]
    unfolding w3 c3 .
  show ?thesis
    using 1 2 3 4 5 6 7 8 unfolding env0_simps by (intro conjI)
qed

section \<open>No validation when a request is created\<close>

lemma newItemData_quantity: "newItemData item ''quantity'' = Some (Num (quantity item))"
  by (simp add: newItemData_def)

lemma handleSubmit_item_quantity:
  assumes d: "distinct (map (autoId e2) [0..<length (items fd)])" and i: "i < length (items fd)"
  shows "fieldOf (snd (handleSubmit u fd e1 e2 db)) PickupItems (autoId e2 i) ''quantity''
           = Some (Num (quantity (items fd ! i)))"
proof -
  have d': "distinct (map (autoId e2) [0..<length (map newItemData (items fd))])"
    using d by simp
  have i': "i < length (map newItemData (items fd))" using i by simp
  have "snd (handleSubmit u fd e1 e2 db) PickupItems (autoId e2 i) =
          Some (setData (serverTime e2)
                  ((plain (map newItemData (items fd) ! i))
                     (''pickupId'' \<mapsto> Val (Str (autoId e1 0)),
                      ''createdAt'' \<mapsto> ServerTimestamp)))"
    unfolding handleSubmit_items by (rule addPickupItems_at[OF d' i'])
  then show ?thesis
    using i by (simp add: fieldOf_def setData_def plain_def newItemData_quantity)
qed

lemma handleSubmit_no_items:
  "items fd = [] \<Longrightarrow> snd (handleSubmit u fd e1 e2 db) PickupItems = db PickupItems"
  unfolding handleSubmit_items by (simp add: addPickupItems_as_sets)

text \<open>
  C4, as stated, fails: submitting the form with an empty item list succeeds and creates
  the request \<open>id0\<close>, pending, with no items; submitting one item of quantity 0 succeeds
  and creates the request and the item \<open>id2\<close> with quantity 0.
\<close>

theorem handleSubmit_empty_counterexample:
  "dbEmpty Pickups ''id0'' = None
   \<and> fst (handleSubmit ''u1'' (formWith []) env0 env1 dbEmpty) = Inr ''id0''
   \<and> fieldOf (snd (handleSubmit ''u1'' (formWith []) env0 env1 dbEmpty))
        Pickups ''id0'' ''status'' = Some (Str ''pending'')
   \<and> fieldOf (snd (handleSubmit ''u1'' (formWith []) env0 env1 dbEmpty))
        Pickups ''id0'' ''totalItems'' = Some (Num 0)
   \<and> dbEmpty PickupItems ''id2'' = None
   \<and> fst (handleSubmit ''u1'' (formWith [phoneItem 0]) env0 env1 dbEmpty) = Inr ''id0''
   \<and> fieldOf (snd (handleSubmit ''u1'' (formWith [phoneItem 0]) env0 env1 dbEmpty))
        Pickups ''id0'' ''status'' = Some (Str ''pending'')
   \<and> fieldOf (snd (handleSubmit ''u1'' (formWith [phoneItem 0]) env0 env1 dbEmpty))
        PickupItems ''id2'' ''quantity'' = Some (Num 0)"
proof -
  have d: "distinct (map (autoId env1) [0..<length (items (formWith [phoneItem 0]))])"
    by (simp add: formWith_def)
  have i: "0 < length (items (formWith [phoneItem 0]))" by (simp add: formWith_def)
  show ?thesis
    using handleSubmit_pickup(1,2,4)[of "''u1''" "formWith []" env0 env1 dbEmpty]
          handleSubmit_pickup(1,2)[of "''u1''" "formWith [phoneItem 0]" env0 env1 dbEmpty]
          handleSubmit_item_quantity[OF d i, of "''u1''" env0 dbEmpty]
    by (simp add: env0_simps env1_simps formWith_def phoneItem_def weighedItem_def
                  dbEmpty_def)
qed

text \<open>
  C4, amended. \<open>handleSubmit\<close> and \<open>createPickup\<close> validate nothing and have no failure
  for a malformed input: for every form data the submission succeeds and creates the
  request, pending, under the generated id. With an empty item list the request has
  \<open>totalItems\<close>, \<open>estimatedWeightKg\<close> and \<open>estimatedCredits\<close> 0 and no item is written;
  an item is written with the quantity the form holds, whatever it is (the generated
  item ids taken as different from each other). What keeps such a form from being
  submitted is the form itself: whatever the user does in it, every quantity stays at
  least 1, and past step 1, so at step 4 where the request is submitted, the item list
  is not empty.
\<close>

theorem handleSubmit_validates_nothing:
  "fst (handleSubmit u fd e1 e2 db) = Inr (autoId e1 0)
   \<and> fieldOf (snd (handleSubmit u fd e1 e2 db)) Pickups (autoId e1 0) ''status''
        = Some (Str ''pending'')
   \<and> (items fd = [] \<longrightarrow>
         fieldOf (snd (handleSubmit u fd e1 e2 db)) Pickups (autoId e1 0) ''totalItems''
           = Some (Num 0)
       \<and> fieldOf (snd (handleSubmit u fd e1 e2 db)) Pickups (autoId e1 0) ''estimatedWeightKg''
           = Some (Num 0)
       \<and> fieldOf (snd (handleSubmit u fd e1 e2 db)) Pickups (autoId e1 0) ''estimatedCredits''
           = Some (Num 0)
       \<and> snd (handleSubmit u fd e1 e2 db) PickupItems = db PickupItems)
   \<and> (distinct (map (autoId e2) [0..<length (items fd)]) \<longrightarrow>
        (\<forall>i<length (items fd).
           fieldOf (snd (handleSubmit u fd e1 e2 db)) PickupItems (autoId e2 i) ''quantity''
             = Some (Num (quantity (items fd ! i)))))
   \<and> (\<forall>evs. list_all (\<lambda>i. quantity i \<ge> 1) (snd (formRun evs))
           \<and> (fst (formRun evs) \<ge> 2 \<longrightarrow> snd (formRun evs) \<noteq> []))"
proof -
  have A: "fst (handleSubmit u fd e1 e2 db) = Inr (autoId e1 0)"
    by (rule handleSubmit_pickup)
  have B: "fieldOf (snd (handleSubmit u fd e1 e2 db)) Pickups (autoId e1 0) ''status''
        = Some (Str ''pending'')"
    by (rule handleSubmit_pickup)
  have C: "items fd = [] \<longrightarrow>
         fieldOf (snd (handleSubmit u fd e1 e2 db)) Pickups (autoId e1 0) ''totalItems''
           = Some (Num 0)
       \<and> fieldOf (snd (handleSubmit u fd e1 e2 db)) Pickups (autoId e1 0) ''estimatedWeightKg''
           = Some (Num 0)
       \<and> fieldOf (snd (handleSubmit u fd e1 e2 db)) Pickups (autoId e1 0) ''estimatedCredits''
           = Some (Num 0)
       \<and> snd (handleSubmit u fd e1 e2 db) PickupItems = db PickupItems"
    by (simp add: handleSubmit_pickup handleSubmit_no_items)
  have D: "distinct (map (autoId e2) [0..<length (items fd)]) \<longrightarrow>
        (\<forall>i<length (items fd).
           fieldOf (snd (handleSubmit u fd e1 e2 db)) PickupItems (autoId e2 i) ''quantity''
             = Some (Num (quantity (items fd ! i))))"
    by (intro impI allI) (rule handleSubmit_item_quantity)
  have E: "\<forall>evs. list_all (\<lambda>i. quantity i \<ge> 1) (snd (formRun evs))
           \<and> (fst (formRun evs) \<ge> 2 \<longrightarrow> snd (formRun evs) \<noteq> [])"
  proof
    fix evs
    show "list_all (\<lambda>i. quantity i \<ge> 1) (snd (formRun evs))
           \<and> (fst (formRun evs) \<ge> 2 \<longrightarrow> snd (formRun evs) \<noteq> [])"
      using formRun_inv[of evs] by (auto simp: formInv_def split: if_splits)
  qed
  show ?thesis by (rule conjI[OF A conjI[OF B conjI[OF C conjI[OF D E]]]])
qed

theorem handleSubmit_validates_nothing_witness:
  "fst (handleSubmit ''u1'' (formWith []) env0 env1 dbEmpty) = Inr ''id0''
   \<and> fieldOf (snd (handleSubmit ''u1'' (formWith []) env0 env1 dbEmpty))
        Pickups ''id0'' ''estimatedCredits'' = Some (Num 0)
   \<and> snd (handleSubmit ''u1'' (formWith []) env0 env1 dbEmpty) PickupItems = dbEmpty PickupItems
   \<and> fieldOf (snd (handleSubmit ''u1'' (formWith [phoneItem 0]) env0 env1 dbEmpty))
        PickupItems ''id2'' ''quantity'' = Some (Num 0)
   \<and> formRun [Toggle ''smartphones'' ''Smartphones & Tablets'' (toDouble 0.2),
               Minus ''smartphones'', Next, Next, Next]
       = (4, [phoneItem 1])
   \<and> formRun [Next, Next, Next] = (1, [])"
proof -
  note t0 = handleSubmit_validates_nothing[of "''u1''" "formWith []" env0 env1 dbEmpty]
  note t1 = handleSubmit_validates_nothing[of "''u1''" "formWith [phoneItem 0]" env0 env1 dbEmpty]
  have e: "items (formWith []) = []" by (simp add: formWith_def)
  have d: "distinct (map (autoId env1) [0..<length (items (formWith [phoneItem 0]))])"
    by (simp add: formWith_def)
  have i: "0 < length (items (formWith [phoneItem 0]))" by (simp add: formWith_def)
  have 1: "fst (handleSubmit ''u1'' (formWith []) env0 env1 dbEmpty) = Inr (autoId env0 0)"
    by (rule t0[THEN conjunct1])
  note C = t0[THEN conjunct2, THEN conjunct2, THEN conjunct1, rule_format, OF e]
  have 2: "fieldOf (snd (handleSubmit ''u1'' (formWith []) env0 env1 dbEmpty))
        Pickups (autoId env0 0) ''estimatedCredits'' = Some (Num 0)"
    by (rule C[THEN conjunct2, THEN conjunct2, THEN conjunct1])
  have 3: "snd (handleSubmit ''u1'' (formWith []) env0 env1 dbEmpty) PickupItems
             = dbEmpty PickupItems"
    by (rule C[THEN conjunct2, THEN conjunct2, THEN conjunct2])
  have 4: "fieldOf (snd (handleSubmit ''u1'' (formWith [phoneItem 0]) env0 env1 dbEmpty))
        PickupItems (autoId env1 0) ''quantity''
          = Some (Num (quantity (items (formWith [phoneItem 0]) ! 0)))"
    by (rule t1[THEN conjunct2, THEN conjunct2, THEN conjunct2, THEN conjunct1,
                rule_format, OF d i])
  have 5: "formRun [Toggle ''smartphones'' ''Smartphones & Tablets'' (toDouble 0.2),
                    Minus ''smartphones'', Next, Next, Next] = (4, [phoneItem 1])"
    by (simp add: formRun_def toggleCategory_def minusQuantity_def phoneItem_def
                  weighedItem_def)
  have 6: "formRun [Next, Next, Next] = (1, [])"
    by (simp add: formRun_def)
  show ?thesis
    using 1 2 3 4 5 6
    by (simp add: env0_simps env1_simps formWith_def phoneItem_def weighedItem_def)
qed

section \<open>The scanner\<close>

lemma includes_str_empty: "includes_str s []"
  by (cases s) simp_all

lemma includes_str_sublist: "includes_str s t \<longleftrightarrow> sublist t s"
  by (induction s) (auto simp: sublist_Cons_right)

lemma scanKeys_low: "\<not> probability pred > toDouble 0.1 \<Longrightarrow> scanKeys ps pred w es = None"
  by (induction es) auto

lemma scanKeys_Some:
  "scanKeys ps pred w es = Some r \<Longrightarrow>
   label r = className pred \<and> confidence r = probability pred \<and> isEwaste r
   \<and> category r \<noteq> None \<and> categorySlug r \<noteq> None \<and> allPredictions r = ps
   \<and> probability pred > toDouble 0.1"
  by (induction es) (auto split: if_splits)

lemma scanKeys_empty_word:
  "probability pred > toDouble 0.1 \<Longrightarrow>
   scanKeys ps pred [] EWASTE_LABEL_MAP =
     Some \<lparr>label = className pred, confidence = probability pred, isEwaste = True,
           category = Some ''Smartphones & Tablets'', categorySlug = Some ''smartphones'',
           allPredictions = ps\<rparr>"
  by (simp add: EWASTE_LABEL_MAP_def includes_str_empty)

lemma scanWords_Some:
  "scanWords ps pred ws = Some r \<Longrightarrow>
   label r = className pred \<and> confidence r = probability pred \<and> isEwaste r
   \<and> category r \<noteq> None \<and> categorySlug r \<noteq> None \<and> allPredictions r = ps
   \<and> probability pred > toDouble 0.1"
  by (induction ws) (auto split: option.splits dest: scanKeys_Some)

lemma scanWords_empty_word:
  "probability pred > toDouble 0.1 \<Longrightarrow> [] \<in> set ws \<Longrightarrow> scanWords ps pred ws \<noteq> None"
proof (induction ws)
  case Nil
  then show ?case by simp
next
  case (Cons w ws)
  show ?case
  proof (cases "scanKeys ps pred w EWASTE_LABEL_MAP")
    case (Some r)
    then show ?thesis by simp
  next
    case None
    then have "w \<noteq> []" using scanKeys_empty_word[OF Cons.prems(1), of ps] by auto
    then have "[] \<in> set ws" using Cons.prems(2) by auto
    then show ?thesis using None Cons.IH[OF Cons.prems(1)] by simp
  qed
qed

text \<open>
  What the empty pieces of \<open>split(' ')\<close> do. Every key includes the empty string, so an
  empty piece matches the first key of the map. A label in which a comma is followed by
  a space, as in the classifier's lists of synonyms, has an empty piece; hence a first
  prediction with such a label and a probability above 0.1 is always reported as
  e-waste, whatever it shows.
\<close>

lemma split_str_not_Nil: "split_str sep s \<noteq> []"
  by (induction s) (auto split: list.splits)

lemma two_spaces_empty_piece: "[] \<in> set (tl (split_str CHR '' '' (x @ ''  '' @ y)))"
proof (induction x)
  case Nil
  then show ?case by simp
next
  case (Cons c x)
  obtain w ws where s: "split_str CHR '' '' (x @ ''  '' @ y) = w # ws"
    using split_str_not_Nil[of "CHR '' ''" "x @ ''  '' @ y"] by (cases "split_str CHR '' '' (x @ ''  '' @ y)") auto
  with Cons have "[] \<in> set ws" by simp
  then show ?case using s by simp
qed

lemma comma_space_empty_word: "[] \<in> set (words_of (a @ '', '' @ b))"
proof -
  have "replaceCommaUnderscore (toLowerCase (a @ '', '' @ b))
          = replaceCommaUnderscore (toLowerCase a) @ ''  ''
            @ replaceCommaUnderscore (toLowerCase b)"
    by (simp add: replaceCommaUnderscore_def toLowerCase_def toLowerChar_def)
  moreover have "[] \<in> set (split_str CHR '' '' (x @ ''  '' @ y))" for x y
    using two_spaces_empty_piece[of x y] split_str_not_Nil[of "CHR '' ''" "x @ ''  '' @ y"]
    by (cases "split_str CHR '' '' (x @ ''  '' @ y)") auto
  ultimately show ?thesis by (simp only: words_of_def)
qed

lemma empty_word_is_ewaste:
  assumes "probability p > toDouble 0.1" and "[] \<in> set (words_of (className p))"
  shows "isEwaste (scanImage (p # ps)) \<and> label (scanImage (p # ps)) = className p
         \<and> confidence (scanImage (p # ps)) = probability p
         \<and> category (scanImage (p # ps)) \<noteq> None"
proof -
  obtain r where r: "scanWords (p # ps) p (words_of (className p)) = Some r"
    using scanWords_empty_word[OF assms, of "p # ps"] by auto
  then have "scanImage (p # ps) = r" by (simp add: scanImage_def)
  then show ?thesis using scanWords_Some[OF r] by simp
qed

text \<open>
  What the three loops compute, in terms of the pieces that \<open>split(' ')\<close> returns: the
  first prediction, in order, whose probability is above 0.1 and one of whose pieces
  matches a key wins, with the category of the first key that its first matching piece
  matches; when there is none, the decision is negative and carries the first
  prediction.
\<close>

lemma positive_pair:
  "positive ps pred (cat, slug) =
     \<lparr>label = className pred, confidence = probability pred, isEwaste = True,
      category = Some cat, categorySlug = Some slug, allPredictions = ps\<rparr>"
  by (simp add: positive_def)

lemma scanKeys_firstKey:
  "scanKeys ps pred w es =
     (if probability pred > toDouble 0.1 then map_option (positive ps pred) (firstKey w es)
      else None)"
proof (induction es)
  case Nil
  then show ?case by simp
next
  case (Cons entry es)
  obtain key cat slug where entry: "entry = (key, cat, slug)" by (cases entry)
  show ?case unfolding entry using Cons by (simp add: positive_pair)
qed

lemma scanWords_firstHit:
  "scanWords ps pred ws =
     (if probability pred > toDouble 0.1 then map_option (positive ps pred) (firstHit ws)
      else None)"
  by (induction ws) (auto simp: scanKeys_firstKey split: option.splits)

lemma scanPredictions_skip:
  "(\<And>q. q \<in> set qs \<Longrightarrow>
          \<not> probability q > toDouble 0.1 \<or> firstHit (words_of (className q)) = None)
   \<Longrightarrow> scanPredictions ps (qs @ rs) = scanPredictions ps rs"
  by (induction qs) (auto simp: scanWords_firstHit)

lemma scanImage_first_hit:
  assumes "ps = qs @ p # rs"
    and "\<And>q. q \<in> set qs \<Longrightarrow>
           \<not> probability q > toDouble 0.1 \<or> firstHit (words_of (className q)) = None"
    and "firstHit (words_of (className p)) = Some h" and "probability p > toDouble 0.1"
  shows "scanImage ps = positive ps p h"
proof -
  have "scanPredictions ps ps = scanPredictions ps (p # rs)"
    unfolding assms(1) using assms(2) by (rule scanPredictions_skip)
  also have "\<dots> = Some (positive (qs @ p # rs) p h)"
    using assms(3,4) by (simp add: scanWords_firstHit assms(1))
  finally show ?thesis by (simp add: scanImage_def assms(1))
qed

lemma scanImage_no_hit:
  assumes "\<And>q. q \<in> set ps \<Longrightarrow>
             \<not> probability q > toDouble 0.1 \<or> firstHit (words_of (className q)) = None"
  shows "scanImage ps =
           \<lparr>label = (case ps of [] \<Rightarrow> ''Unknown''
                      | p # _ \<Rightarrow> if className p = [] then ''Unknown'' else className p),
            confidence = (case ps of [] \<Rightarrow> 0 | p # _ \<Rightarrow> probability p),
            isEwaste = False, category = None, categorySlug = None, allPredictions = ps\<rparr>"
proof -
  have "scanPredictions ps (ps @ []) = scanPredictions ps []"
    using assms by (rule scanPredictions_skip)
  then show ?thesis by (simp add: scanImage_def split: list.splits)
qed

text \<open>
  C6. The code does not do what the claim says. For the predictions of a cat on a
  laptop, the words of the first label, as the specification normalises it, are
  \<open>tabby\<close>, \<open>tabby\<close>, \<open>cat\<close> and match no key; the first hit is the second prediction,
  \<open>laptop\<close>, with probability 0.3, and the matcher of the specification returns it with
  its category. The code's \<open>split(' ')\<close> gives the first label an empty word between
  \<open>tabby,\<close> and \<open>tabby\<close>; it matches the first key, and \<open>scanImage\<close> returns the cat
  as \<open>Smartphones & Tablets\<close>.
\<close>

theorem scanImage_first_hit_diverges:
  "words_of ''tabby, tabby cat'' = [''tabby'', [], ''tabby'', ''cat'']
   \<and> wordsSpec ''tabby, tabby cat'' = [''tabby'', ''tabby'', ''cat'']
   \<and> classifySpec catAndLaptop =
        \<lparr>label = ''laptop'', confidence = 0.3, isEwaste = True,
         category = Some ''Laptops & Computers'', categorySlug = Some ''laptops'',
         allPredictions = catAndLaptop\<rparr>
   \<and> scanImage catAndLaptop =
        \<lparr>label = ''tabby, tabby cat'', confidence = 0.6, isEwaste = True,
         category = Some ''Smartphones & Tablets'', categorySlug = Some ''smartphones'',
         allPredictions = catAndLaptop\<rparr>"
  by code_simp

text \<open>
  C7. The code does not do what the claim says. For the prediction of a cat alone no
  key matches a word of the label as the specification normalises it, and the matcher
  of the specification returns the negative decision with the label and its
  probability. \<open>scanImage\<close> returns a positive decision, \<open>Smartphones & Tablets\<close>, again
  through the empty word. (For the empty list \<open>scanImage\<close> does return \<open>Unknown\<close>, 0 and
  \<open>isEwaste = false\<close>, and it raises no error on any list.)
\<close>

theorem scanImage_no_hit_diverges:
  "scanPredictionsSpec catOnly catOnly = None
   \<and> classifySpec catOnly =
        \<lparr>label = ''tabby, tabby cat'', confidence = 0.6, isEwaste = False,
         category = None, categorySlug = None, allPredictions = catOnly\<rparr>
   \<and> scanImage catOnly =
        \<lparr>label = ''tabby, tabby cat'', confidence = 0.6, isEwaste = True,
         category = Some ''Smartphones & Tablets'', categorySlug = Some ''smartphones'',
         allPredictions = catOnly\<rparr>
   \<and> scanImage [] =
        \<lparr>label = ''Unknown'', confidence = 0, isEwaste = False,
         category = None, categorySlug = None, allPredictions = []\<rparr>"
  by code_simp

end
